theory Spec2Isabelle
  imports Main "HOL-Library.Char_ord" "HOL-Library.List_Lexorder"
begin

section \<open>Data model\<close>

text \<open>
  The persisted layout follows the \<^verbatim>\<open>CREATE TABLE\<close> statements of the migration: one
  record per table, one list of rows per table, rows kept in insertion order. Columns of
  type \<^verbatim>\<open>TEXT\<close> are strings (the two status columns included), \<^verbatim>\<open>INTEGER\<close> columns
  are integers, \<^verbatim>\<open>DATETIME\<close> columns are timestamps (milliseconds, an integer), and a
  column without \<^verbatim>\<open>NOT NULL\<close> is an option.
\<close>

type_synonym timestamp = int

record user =
  user_id :: int
  user_name :: string
  user_email :: string
  user_passwordHash :: string
  user_createdAt :: timestamp

record food_category =
  category_id :: int
  category_name :: string
  category_createdAt :: timestamp

record food_item =
  item_id :: int
  item_title :: string
  item_status :: string
  item_expiresAt :: "timestamp option"
  item_ownerId :: int
  item_categoryId :: "int option"
  item_createdAt :: timestamp

record friend_group =
  group_id :: int
  group_name :: string
  group_ownerId :: int
  group_createdAt :: timestamp

record group_member =
  member_id :: int
  member_groupId :: int
  member_userId :: int
  member_tag :: "string option"
  member_createdAt :: timestamp

record claim =
  claim_id :: int
  claim_itemId :: int
  claim_claimerId :: int
  claim_status :: string
  claim_createdAt :: timestamp
  claim_decidedAt :: "timestamp option"

record group_share =
  share_id :: int
  share_itemId :: int
  share_groupId :: int
  share_createdAt :: timestamp

record group_message =
  message_id :: int
  message_groupId :: int
  message_authorId :: int
  message_content :: string
  message_createdAt :: timestamp

record donation =
  donation_id :: int
  donation_item :: string
  donation_quantity :: string
  donation_location :: string
  donation_createdAt :: timestamp

record store =
  users :: "user list"
  foodCategories :: "food_category list"
  foodItems :: "food_item list"
  friendGroups :: "friend_group list"
  groupMembers :: "group_member list"
  claims :: "claim list"
  groupShares :: "group_share list"
  groupMessages :: "group_message list"
  donations :: "donation list"

definition empty_store :: store where
  "empty_store = \<lparr>users = [], foodCategories = [], foodItems = [], friendGroups = [],
     groupMembers = [], claims = [], groupShares = [], groupMessages = [], donations = []\<rparr>"

text \<open>
  Every handler answers with an HTTP status and a body \<^verbatim>\<open>{ error: message }\<close> when it
  fails; the constructors are the status classes the handlers use.
\<close>

datatype error =
    BadRequest string
  | Unauthorized string
  | Forbidden string
  | NotFound string
  | Conflict string
  | Internal string

fun http_status :: "error \<Rightarrow> nat" where
  "http_status (BadRequest _) = 400"
| "http_status (Unauthorized _) = 401"
| "http_status (Forbidden _) = 403"
| "http_status (NotFound _) = 404"
| "http_status (Conflict _) = 409"
| "http_status (Internal _) = 500"

section \<open>Store operations\<close>

text \<open>
  \<^verbatim>\<open>INTEGER PRIMARY KEY AUTOINCREMENT\<close>: a new row gets an id above every id of the
  table, starting at 1.
\<close>

definition next_id :: "int list \<Rightarrow> int" where
  "next_id ids = fold max ids 0 + 1"

text \<open>
  \<^verbatim>\<open>update({ where, data })\<close> rewrites the rows the \<^verbatim>\<open>where\<close> selects (a unique
  key) and returns the rewritten row; it throws when it selects none (\<open>None\<close> here), which
  each handler catches in its \<^verbatim>\<open>try\<close>.
\<close>

definition update_row :: "('a \<Rightarrow> bool) \<Rightarrow> ('a \<Rightarrow> 'a) \<Rightarrow> 'a list \<Rightarrow> ('a \<times> 'a list) option" where
  "update_row P f xs =
     (case find P xs of
        None \<Rightarrow> None
      | Some x \<Rightarrow> Some (f x, map (\<lambda>y. if P y then f y else y) xs))"

text \<open>
  Request fields have the type their column has: an id read from the path
  (\<^verbatim>\<open>Number(req.params.id)\<close>) or from the body is an integer, a text field is a string, and
  a field of the body may be absent (\<open>None\<close>). A status or decision outside the handler's
  list, an absent one included, fails the handler's \<^verbatim>\<open>includes\<close> test. A failure of
  the store that comes from outside the data (a lost connection) is not modelled; a
  constraint of the schema that an insert or update breaks is.
\<close>

text \<open>
  An \<^verbatim>\<open>INTEGER\<close> column holds a signed 64-bit integer. A lookup by an id outside that
  range is refused by the store's client, which throws; the handlers that take an id
  from the body (\<^verbatim>\<open>itemId\<close>, \<^verbatim>\<open>userId\<close>) pass it to the lookup as it came, so
  their model has that branch. An id of the path is taken to be in range.
\<close>

definition int64 :: "int \<Rightarrow> bool" where
  "int64 n \<longleftrightarrow> - (2 ^ 63) \<le> n \<and> n < 2 ^ 63"

text \<open>Falsy request fields: \<^verbatim>\<open>!x\<close> holds for an absent field, for 0 and for the empty string.\<close>

fun falsy_int :: "int option \<Rightarrow> bool" where
  "falsy_int None = True"
| "falsy_int (Some n) = (n = 0)"

fun falsy_str :: "string option \<Rightarrow> bool" where
  "falsy_str None = True"
| "falsy_str (Some t) = (t = [])"

section \<open>Authentication\<close>

text \<open>
  \<^verbatim>\<open>jwt.verify(token, JWT_SECRET)\<close> belongs to the jsonwebtoken library: it throws on a
  token that is malformed or wrongly signed, throws on an expired one, and otherwise returns
  the payload \<^verbatim>\<open>signToken\<close> put in (user id and email). It is a parameter of the model.
\<close>

datatype jwt_result =
    JsonWebTokenError
  | TokenExpiredError
  | Payload "int option" string

definition bearer_token :: "string option \<Rightarrow> string option" where
  "bearer_token hdr =
     (let auth = (case hdr of None \<Rightarrow> [] | Some a \<Rightarrow> a)
      in if take 7 auth = ''Bearer '' then Some (drop 7 auth) else None)"

definition authMiddleware :: "(string \<Rightarrow> jwt_result) \<Rightarrow> string option \<Rightarrow> store \<Rightarrow> error + user" where
  "authMiddleware verify hdr s =
     (case bearer_token hdr of
        None \<Rightarrow> Inl (Unauthorized ''Unauthorized'')
      | Some token \<Rightarrow>
          if token = [] then Inl (Unauthorized ''Unauthorized'')
          else (case verify token of
                  Payload (Some uid) email \<Rightarrow>
                    (case find (\<lambda>u. user_id u = uid) (users s) of
                       None \<Rightarrow> Inl (Unauthorized ''Unauthorized'')
                     | Some u \<Rightarrow> Inr u)
                | _ \<Rightarrow> Inl (Unauthorized ''Unauthorized'')))"

definition with_auth ::
  "(string \<Rightarrow> jwt_result) \<Rightarrow> string option \<Rightarrow> store \<Rightarrow> (user \<Rightarrow> (error + 'a) \<times> store)
     \<Rightarrow> (error + 'a) \<times> store" where
  "with_auth verify hdr s handler =
     (case authMiddleware verify hdr s of
        Inl e \<Rightarrow> (Inl e, s)
      | Inr u \<Rightarrow> handler u)"

text \<open>The value of a request field once the handler's \<^verbatim>\<open>!x\<close> guard has let it through.\<close>

fun field_str :: "string option \<Rightarrow> string" where
  "field_str None = []"
| "field_str (Some t) = t"

fun field_int :: "int option \<Rightarrow> int" where
  "field_int None = 0"
| "field_int (Some n) = n"

text \<open>
  \<^verbatim>\<open>POST /api/auth/register\<close>. \<^verbatim>\<open>bcrypt.hash\<close> and \<^verbatim>\<open>jwt.sign\<close> are library calls,
  parameters here.
\<close>

definition signToken :: "(int \<Rightarrow> string \<Rightarrow> string) \<Rightarrow> user \<Rightarrow> string" where
  "signToken sign u = sign (user_id u) (user_email u)"

definition register ::
  "(string \<Rightarrow> string) \<Rightarrow> (int \<Rightarrow> string \<Rightarrow> string) \<Rightarrow> timestamp
     \<Rightarrow> string option \<Rightarrow> string option \<Rightarrow> string option \<Rightarrow> store
     \<Rightarrow> (error + string \<times> int \<times> string \<times> string) \<times> store" where
  "register hash sign now name email password s =
     (if falsy_str name \<or> falsy_str email \<or> falsy_str password
      then (Inl (BadRequest ''name, email, password required''), s)
      else (case find (\<lambda>u. user_email u = field_str email) (users s) of
              Some existing \<Rightarrow> (Inl (Conflict ''Email already registered''), s)
            | None \<Rightarrow>
               (let u = \<lparr>user_id = next_id (map user_id (users s)),
                         user_name = field_str name,
                         user_email = field_str email,
                         user_passwordHash = hash (field_str password),
                         user_createdAt = now\<rparr>
                in (Inr (signToken sign u, user_id u, user_name u, user_email u),
                    s\<lparr>users := users s @ [u]\<rparr>))))"

section \<open>Donations\<close>

text \<open>\<^verbatim>\<open>POST /api/donations\<close>, without authentication.\<close>

definition createDonation ::
  "timestamp \<Rightarrow> string option \<Rightarrow> string option \<Rightarrow> string option \<Rightarrow> store
     \<Rightarrow> (error + donation) \<times> store" where
  "createDonation now item quantity location s =
     (if falsy_str item \<or> falsy_str quantity \<or> falsy_str location
      then (Inl (BadRequest ''item, quantity, and location are required''), s)
      else (let d = \<lparr>donation_id = next_id (map donation_id (donations s)),
                      donation_item = field_str item,
                      donation_quantity = field_str quantity,
                      donation_location = field_str location,
                      donation_createdAt = now\<rparr>
            in (Inr d, s\<lparr>donations := donations s @ [d]\<rparr>)))"

section \<open>Categories\<close>

text \<open>
  The default names of \<^verbatim>\<open>ensureCategories\<close>; the last one is spelled in the source with
  two characters outside ASCII, written here as their UTF-8 bytes.
\<close>

definition category_defaults :: "string list" where
  "category_defaults =
     [''Lactate'', ''Legume'', ''Fructe'', ''Carne'', ''Conserve'',
      ''B'' @ [CHR 0xC3, CHR 0x84, CHR 0xC6, CHR 0x92] @ ''uturi'']"

text \<open>
  \<^verbatim>\<open>createMany\<close> is one \<^verbatim>\<open>INSERT\<close>: it adds every row, or throws (\<open>None\<close>) and adds
  none when a name breaks the unique index on \<^verbatim>\<open>FoodCategory.name\<close>.
\<close>

fun category_createMany ::
  "timestamp \<Rightarrow> string list \<Rightarrow> food_category list \<Rightarrow> food_category list option" where
  "category_createMany now [] cs = Some cs"
| "category_createMany now (n # ns) cs =
     (if find (\<lambda>c. category_name c = n) cs \<noteq> None then None
      else category_createMany now ns
             (cs @ [\<lparr>category_id = next_id (map category_id cs),
                     category_name = n,
                     category_createdAt = now\<rparr>]))"

definition ensureCategories :: "timestamp \<Rightarrow> store \<Rightarrow> store option" where
  "ensureCategories now s =
     (let existing = filter (\<lambda>c. category_name c \<in> set category_defaults) (foodCategories s)
      in if length existing = length category_defaults then Some s
         else (let toCreate = filter (\<lambda>n. find (\<lambda>c. category_name c = n) existing = None)
                                category_defaults
               in if length toCreate > 0
                  then map_option (\<lambda>cs. s\<lparr>foodCategories := cs\<rparr>)
                         (category_createMany now toCreate (foodCategories s))
                  else Some s))"

text \<open>\<^verbatim>\<open>GET /api/categories\<close>, without authentication: seeds, then lists by name.\<close>

definition listCategories :: "timestamp \<Rightarrow> store \<Rightarrow> (error + food_category list) \<times> store" where
  "listCategories now s =
     (case ensureCategories now s of
        None \<Rightarrow> (Inl (Internal ''Failed to fetch categories''), s)
      | Some s1 \<Rightarrow> (Inr (sort_key category_name (foodCategories s1)), s1))"

section \<open>Food items\<close>

text \<open>
  \<^verbatim>\<open>POST /api/items\<close>. \<^verbatim>\<open>new Date(expiresAt)\<close> is the runtime's date parser, a parameter
  here: \<open>None\<close> is an invalid date, which the store's client refuses. The insert obeys the
  table's two foreign keys (owner and, when not null, category) and throws otherwise;
  the status column takes its default. The answer carries the category joined.
\<close>

definition createItem ::
  "(string \<Rightarrow> timestamp option) \<Rightarrow> timestamp \<Rightarrow> user
     \<Rightarrow> string option \<Rightarrow> int option \<Rightarrow> string option \<Rightarrow> store
     \<Rightarrow> (error + food_item \<times> food_category option) \<times> store" where
  "createItem parse_date now usr title categoryId expiresAt s =
     (if falsy_str title then (Inl (BadRequest ''title is required''), s)
      else (case ensureCategories now s of
              None \<Rightarrow> (Inl (Internal ''Failed to create item''), s)
            | Some s1 \<Rightarrow>
               (let cat = (if falsy_int categoryId then None else categoryId);
                    expires = (if falsy_str expiresAt then Some None
                               else map_option Some (parse_date (field_str expiresAt)))
                in (case expires of
                      None \<Rightarrow> (Inl (Internal ''Failed to create item''), s1)
                    | Some ex \<Rightarrow>
                       if find (\<lambda>u. user_id u = user_id usr) (users s1) = None
                          \<or> (case cat of
                                None \<Rightarrow> False
                              | Some k \<Rightarrow> find (\<lambda>c. category_id c = k) (foodCategories s1) = None)
                       then (Inl (Internal ''Failed to create item''), s1)
                       else (let it = \<lparr>item_id = next_id (map item_id (foodItems s1)),
                                        item_title = field_str title,
                                        item_status = ''IN_FRIDGE'',
                                        item_expiresAt = ex,
                                        item_ownerId = user_id usr,
                                        item_categoryId = cat,
                                        item_createdAt = now\<rparr>
                             in (Inr (it, (case cat of
                                             None \<Rightarrow> None
                                           | Some k \<Rightarrow> find (\<lambda>c. category_id c = k)
                                                         (foodCategories s1))),
                                 s1\<lparr>foodItems := foodItems s1 @ [it]\<rparr>))))))"

text \<open>
  \<^verbatim>\<open>PATCH /api/items/:id/status\<close>. The update selects by the compound key
  \<^verbatim>\<open>id_ownerId\<close>; when it selects no row the client throws and the handler's
  \<^verbatim>\<open>catch\<close> answers 500.
\<close>

definition setItemStatus ::
  "user \<Rightarrow> int \<Rightarrow> string \<Rightarrow> store \<Rightarrow> (error + food_item) \<times> store" where
  "setItemStatus usr iid status s =
     (if status \<notin> set [''IN_FRIDGE'', ''AVAILABLE'', ''CLAIMED'']
      then (Inl (BadRequest ''invalid status''), s)
      else (case update_row (\<lambda>i. item_id i = iid \<and> item_ownerId i = user_id usr)
                   (\<lambda>i. i\<lparr>item_status := status\<rparr>) (foodItems s) of
              None \<Rightarrow> (Inl (Internal ''Failed to update item''), s)
            | Some (updated, its) \<Rightarrow> (Inr updated, s\<lparr>foodItems := its\<rparr>)))"

section \<open>Groups\<close>

text \<open>\<^verbatim>\<open>POST /api/groups\<close>.\<close>

definition createGroup ::
  "timestamp \<Rightarrow> user \<Rightarrow> string option \<Rightarrow> store \<Rightarrow> (error + friend_group) \<times> store" where
  "createGroup now usr name s =
     (if falsy_str name then (Inl (BadRequest ''name required''), s)
      else if find (\<lambda>u. user_id u = user_id usr) (users s) = None
      then (Inl (Internal ''Failed to create group''), s)
      else (let g = \<lparr>group_id = next_id (map group_id (friendGroups s)),
                      group_name = field_str name,
                      group_ownerId = user_id usr,
                      group_createdAt = now\<rparr>
            in (Inr g, s\<lparr>friendGroups := friendGroups s @ [g]\<rparr>)))"

text \<open>\<^verbatim>\<open>POST /api/groups/:id/members\<close>; the answer carries the member's user joined.\<close>

definition addMember ::
  "timestamp \<Rightarrow> user \<Rightarrow> int \<Rightarrow> int option \<Rightarrow> string option \<Rightarrow> store
     \<Rightarrow> (error + group_member \<times> user) \<times> store" where
  "addMember now owner groupId userId tag s =
     (if falsy_int userId then (Inl (BadRequest ''userId required''), s)
      else (case find (\<lambda>g. group_id g = groupId \<and> group_ownerId g = user_id owner)
                   (friendGroups s) of
              None \<Rightarrow> (Inl (NotFound ''group not found''), s)
            | Some grp \<Rightarrow>
               if \<not> int64 (field_int userId) then (Inl (Internal ''Failed to add member''), s)
               else
               (case find (\<lambda>u. user_id u = field_int userId) (users s) of
                  None \<Rightarrow> (Inl (NotFound ''user not found''), s)
                | Some friend \<Rightarrow>
                   (case find (\<lambda>m. member_groupId m = groupId \<and> member_userId m = user_id friend)
                          (groupMembers s) of
                      Some existingMember \<Rightarrow> (Inl (Conflict ''User already in group''), s)
                    | None \<Rightarrow>
                       (let m = \<lparr>member_id = next_id (map member_id (groupMembers s)),
                                 member_groupId = groupId,
                                 member_userId = user_id friend,
                                 member_tag = (if falsy_str tag then None else tag),
                                 member_createdAt = now\<rparr>
                        in (Inr (m, friend), s\<lparr>groupMembers := groupMembers s @ [m]\<rparr>))))))"

text \<open>
  The check the group routes share: the group is read with its members, and the caller
  must be its owner or one of the members.
\<close>

definition group_members :: "store \<Rightarrow> int \<Rightarrow> group_member list" where
  "group_members s gid = filter (\<lambda>m. member_groupId m = gid) (groupMembers s)"

definition is_owner_or_member :: "store \<Rightarrow> friend_group \<Rightarrow> user \<Rightarrow> bool" where
  "is_owner_or_member s grp usr =
     (let isOwner = (group_ownerId grp = user_id usr);
          isMember = list_ex (\<lambda>m. member_userId m = user_id usr) (group_members s (group_id grp))
      in isOwner \<or> isMember)"

section \<open>Group chat\<close>

text \<open>
  \<^verbatim>\<open>GET /api/groups/:id/messages\<close>: the group's messages ordered by creation time,
  ascending, of which the first 200 are taken; each with its author joined. Messages
  created at the same instant keep their insertion order.
\<close>

definition listMessages ::
  "user \<Rightarrow> int \<Rightarrow> store \<Rightarrow> error + (group_message \<times> user option) list" where
  "listMessages usr gid s =
     (case find (\<lambda>g. group_id g = gid) (friendGroups s) of
        None \<Rightarrow> Inl (NotFound ''group not found'')
      | Some grp \<Rightarrow>
         if \<not> is_owner_or_member s grp usr then Inl (Forbidden ''Not allowed'')
         else (let messages = take 200 (sort_key message_createdAt
                                 (filter (\<lambda>m. message_groupId m = gid) (groupMessages s)))
               in Inr (map (\<lambda>m. (m, find (\<lambda>u. user_id u = message_authorId m) (users s)))
                         messages)))"

text \<open>
  \<^verbatim>\<open>String.prototype.trim\<close> removes white space and line terminators from both ends:
  the code points U+0009 to U+000D, U+0020, U+00A0, U+1680, U+2000 to U+200A, U+2028,
  U+2029, U+202F, U+205F, U+3000 and U+FEFF. Strings are sequences of UTF-8 bytes here,
  so each code point is the byte sequence that encodes it; no encoding ends or begins
  inside another character's.
\<close>

definition white_space :: "string list" where
  "white_space =
     [[CHR 0x09], [CHR 0x0A], [CHR 0x0B], [CHR 0x0C], [CHR 0x0D], [CHR 0x20],
      [CHR 0xC2, CHR 0xA0],
      [CHR 0xE1, CHR 0x9A, CHR 0x80],
      [CHR 0xE2, CHR 0x80, CHR 0x80], [CHR 0xE2, CHR 0x80, CHR 0x81],
      [CHR 0xE2, CHR 0x80, CHR 0x82], [CHR 0xE2, CHR 0x80, CHR 0x83],
      [CHR 0xE2, CHR 0x80, CHR 0x84], [CHR 0xE2, CHR 0x80, CHR 0x85],
      [CHR 0xE2, CHR 0x80, CHR 0x86], [CHR 0xE2, CHR 0x80, CHR 0x87],
      [CHR 0xE2, CHR 0x80, CHR 0x88], [CHR 0xE2, CHR 0x80, CHR 0x89],
      [CHR 0xE2, CHR 0x80, CHR 0x8A],
      [CHR 0xE2, CHR 0x80, CHR 0xA8], [CHR 0xE2, CHR 0x80, CHR 0xA9],
      [CHR 0xE2, CHR 0x80, CHR 0xAF],
      [CHR 0xE2, CHR 0x81, CHR 0x9F],
      [CHR 0xE3, CHR 0x80, CHR 0x80],
      [CHR 0xEF, CHR 0xBB, CHR 0xBF]]"

text \<open>Removes, as long as there is one, a leading occurrence of one of the given sequences.\<close>

function strip_leading :: "string list \<Rightarrow> string \<Rightarrow> string" where
  "strip_leading ws t =
     (case find (\<lambda>w. w \<noteq> [] \<and> take (length w) t = w) ws of
        None \<Rightarrow> t
      | Some w \<Rightarrow> strip_leading ws (drop (length w) t))"
  by pat_completeness auto
termination
proof (relation "measure (\<lambda>(ws, t). length t)")
  show "wf (measure (\<lambda>(ws, t). length t))" by simp
next
  fix ws :: "string list" and t w :: string
  assume "find (\<lambda>w. w \<noteq> [] \<and> take (length w) t = w) ws = Some w"
  then have w: "w \<noteq> []" and p: "take (length w) t = w"
    by (auto simp: find_Some_iff)
  from p have "length (take (length w) t) = length w" by simp
  then have "length w \<le> length t" by simp
  with w show "((ws, drop (length w) t), (ws, t)) \<in> measure (\<lambda>(ws, t). length t)"
    by (cases w) auto
qed

definition trim :: "string \<Rightarrow> string" where
  "trim t = rev (strip_leading (map rev white_space) (rev (strip_leading white_space t)))"

text \<open>\<^verbatim>\<open>POST /api/groups/:id/messages\<close>; the answer carries the author joined.\<close>

definition postMessage ::
  "timestamp \<Rightarrow> user \<Rightarrow> int \<Rightarrow> string option \<Rightarrow> store
     \<Rightarrow> (error + group_message \<times> user option) \<times> store" where
  "postMessage now usr gid content s =
     (if falsy_str content \<or> trim (field_str content) = []
      then (Inl (BadRequest ''content required''), s)
      else (case find (\<lambda>g. group_id g = gid) (friendGroups s) of
              None \<Rightarrow> (Inl (NotFound ''group not found''), s)
            | Some grp \<Rightarrow>
               if \<not> is_owner_or_member s grp usr then (Inl (Forbidden ''Not allowed''), s)
               else if find (\<lambda>u. user_id u = user_id usr) (users s) = None
               then (Inl (Internal ''Failed to post message''), s)
               else (let m = \<lparr>message_id = next_id (map message_id (groupMessages s)),
                               message_groupId = gid,
                               message_authorId = user_id usr,
                               message_content = trim (field_str content),
                               message_createdAt = now\<rparr>
                     in (Inr (m, find (\<lambda>u. user_id u = user_id usr) (users s)),
                         s\<lparr>groupMessages := groupMessages s @ [m]\<rparr>))))"

section \<open>Group shares\<close>

text \<open>
  \<^verbatim>\<open>POST /api/groups/:id/share\<close>. The item is looked up by the id of the body, a
  lookup that throws for an id out of range. The upsert looks the row up by the compound key
  \<^verbatim>\<open>itemId_groupId\<close>: a row that is there is updated with no change, otherwise one is
  created.
\<close>

definition shareItemToGroup ::
  "timestamp \<Rightarrow> user \<Rightarrow> int \<Rightarrow> int option \<Rightarrow> store \<Rightarrow> (error + unit) \<times> store" where
  "shareItemToGroup now usr gid itemId s =
     (if falsy_int itemId then (Inl (BadRequest ''itemId required''), s)
      else (case find (\<lambda>g. group_id g = gid) (friendGroups s) of
              None \<Rightarrow> (Inl (NotFound ''group not found''), s)
            | Some grp \<Rightarrow>
               if \<not> is_owner_or_member s grp usr then (Inl (Forbidden ''Not allowed''), s)
               else if \<not> int64 (field_int itemId) then (Inl (Internal ''Failed to share item''), s)
               else (case find (\<lambda>i. item_id i = field_int itemId) (foodItems s) of
                       None \<Rightarrow> (Inl (Forbidden ''You can share only your own items''), s)
                     | Some it \<Rightarrow>
                        if item_ownerId it \<noteq> user_id usr
                        then (Inl (Forbidden ''You can share only your own items''), s)
                        else (case find (\<lambda>r. share_itemId r = field_int itemId
                                                \<and> share_groupId r = gid) (groupShares s) of
                                Some existing \<Rightarrow> (Inr (), s)
                              | None \<Rightarrow>
                                 (let r = \<lparr>share_id = next_id (map share_id (groupShares s)),
                                           share_itemId = field_int itemId,
                                           share_groupId = gid,
                                           share_createdAt = now\<rparr>
                                  in (Inr (), s\<lparr>groupShares := groupShares s @ [r]\<rparr>))))))"

section \<open>Claims\<close>

text \<open>
  \<^verbatim>\<open>POST /api/claims\<close>. The item is looked up by the id of the body, a lookup that
  throws for an id out of range. The insert obeys the table's foreign keys (the item was
  just read; the claimer must be a user) and the status column takes its default. The
  answer carries the claimer joined.
\<close>

definition createClaim ::
  "timestamp \<Rightarrow> user \<Rightarrow> int option \<Rightarrow> store \<Rightarrow> (error + claim \<times> user option) \<times> store" where
  "createClaim now usr itemId s =
     (if falsy_int itemId then (Inl (BadRequest ''itemId required''), s)
      else if \<not> int64 (field_int itemId) then (Inl (Internal ''Failed to create claim''), s)
      else (case find (\<lambda>i. item_id i = field_int itemId) (foodItems s) of
              None \<Rightarrow> (Inl (BadRequest ''Item not available''), s)
            | Some it \<Rightarrow>
               if item_status it \<noteq> ''AVAILABLE'' then (Inl (BadRequest ''Item not available''), s)
               else if item_ownerId it = user_id usr
               then (Inl (BadRequest ''Cannot claim own item''), s)
               else if find (\<lambda>u. user_id u = user_id usr) (users s) = None
               then (Inl (Internal ''Failed to create claim''), s)
               else (let c = \<lparr>claim_id = next_id (map claim_id (claims s)),
                               claim_itemId = field_int itemId,
                               claim_claimerId = user_id usr,
                               claim_status = ''PENDING'',
                               claim_createdAt = now,
                               claim_decidedAt = None\<rparr>
                     in (Inr (c, find (\<lambda>u. user_id u = user_id usr) (users s)),
                         s\<lparr>claims := claims s @ [c]\<rparr>))))"

text \<open>
  \<^verbatim>\<open>POST /api/claims/:id/decision\<close>. The claim is read with its item joined; the claim
  row is updated and returned with item and claimer joined; only then, for an accepted
  claim, the item row is updated. The answer is the claim as the first update returned
  it. A joined row is looked up by the key the claim holds.
\<close>

record claim_joined =
  cj_claim :: claim
  cj_item :: "food_item option"
  cj_claimer :: "user option"

definition join_claim :: "store \<Rightarrow> claim \<Rightarrow> claim_joined" where
  "join_claim s c =
     \<lparr>cj_claim = c,
      cj_item = find (\<lambda>i. item_id i = claim_itemId c) (foodItems s),
      cj_claimer = find (\<lambda>u. user_id u = claim_claimerId c) (users s)\<rparr>"

definition decideClaim ::
  "timestamp \<Rightarrow> user \<Rightarrow> int \<Rightarrow> string \<Rightarrow> store \<Rightarrow> (error + claim_joined) \<times> store" where
  "decideClaim now usr cid decision s =
     (if decision \<notin> set [''ACCEPTED'', ''REJECTED'']
      then (Inl (BadRequest ''decision must be ACCEPTED or REJECTED''), s)
      else (case find (\<lambda>c. claim_id c = cid) (claims s) of
              None \<Rightarrow> (Inl (Forbidden ''Not allowed''), s)
            | Some c \<Rightarrow>
               (case find (\<lambda>i. item_id i = claim_itemId c) (foodItems s) of
                  None \<Rightarrow> (Inl (Internal ''Failed to update claim''), s)
                | Some it \<Rightarrow>
                   if item_ownerId it \<noteq> user_id usr then (Inl (Forbidden ''Not allowed''), s)
                   else (case update_row (\<lambda>c. claim_id c = cid)
                                 (\<lambda>c. c\<lparr>claim_status := decision, claim_decidedAt := Some now\<rparr>)
                                 (claims s) of
                           None \<Rightarrow> (Inl (Internal ''Failed to update claim''), s)
                         | Some (c', cs) \<Rightarrow>
                            (let s1 = s\<lparr>claims := cs\<rparr>;
                                 updated = join_claim s1 c'
                             in if decision = ''ACCEPTED''
                                then (case update_row (\<lambda>i. item_id i = claim_itemId c)
                                              (\<lambda>i. i\<lparr>item_status := ''CLAIMED''\<rparr>)
                                              (foodItems s1) of
                                        None \<Rightarrow> (Inl (Internal ''Failed to update claim''), s1)
                                      | Some (it', its) \<Rightarrow> (Inr updated, s1\<lparr>foodItems := its\<rparr>))
                                else (Inr updated, s1))))))"

section \<open>The server as a transition system\<close>

text \<open>
  What a request depends on besides the store: the clock (\<^verbatim>\<open>new Date()\<close> and the
  \<^verbatim>\<open>CURRENT_TIMESTAMP\<close> defaults), and the library functions.
\<close>

record env =
  env_now :: timestamp
  env_verify :: "string \<Rightarrow> jwt_result"
  env_hash :: "string \<Rightarrow> string"
  env_sign :: "int \<Rightarrow> string \<Rightarrow> string"
  env_parse_date :: "string \<Rightarrow> timestamp option"

text \<open>
  The routes that write to the store, with the fields each reads from the path and the
  body. Every other route (login, \<^verbatim>\<open>/api/me\<close>, the lists, the user search, the share
  stub) only reads.
\<close>

datatype request =
    Register "string option" "string option" "string option"
  | CreateDonation "string option" "string option" "string option"
  | ListCategories
  | CreateItem "string option" "int option" "string option"
  | SetItemStatus int string
  | CreateGroup "string option"
  | AddMember int "int option" "string option"
  | CreateClaim "int option"
  | DecideClaim int string
  | PostMessage int "string option"
  | ShareItemToGroup int "int option"

text \<open>The store after a request that came with the given \<^verbatim>\<open>Authorization\<close> header.\<close>

fun handle :: "env \<Rightarrow> string option \<Rightarrow> request \<Rightarrow> store \<Rightarrow> store" where
  "handle e hdr (Register name email password) s =
     snd (register (env_hash e) (env_sign e) (env_now e) name email password s)"
| "handle e hdr (CreateDonation item quantity location) s =
     snd (createDonation (env_now e) item quantity location s)"
| "handle e hdr ListCategories s = snd (listCategories (env_now e) s)"
| "handle e hdr (CreateItem title categoryId expiresAt) s =
     snd (with_auth (env_verify e) hdr s
            (\<lambda>u. createItem (env_parse_date e) (env_now e) u title categoryId expiresAt s))"
| "handle e hdr (SetItemStatus iid status) s =
     snd (with_auth (env_verify e) hdr s (\<lambda>u. setItemStatus u iid status s))"
| "handle e hdr (CreateGroup name) s =
     snd (with_auth (env_verify e) hdr s (\<lambda>u. createGroup (env_now e) u name s))"
| "handle e hdr (AddMember gid userId tag) s =
     snd (with_auth (env_verify e) hdr s (\<lambda>u. addMember (env_now e) u gid userId tag s))"
| "handle e hdr (CreateClaim itemId) s =
     snd (with_auth (env_verify e) hdr s (\<lambda>u. createClaim (env_now e) u itemId s))"
| "handle e hdr (DecideClaim cid decision) s =
     snd (with_auth (env_verify e) hdr s (\<lambda>u. decideClaim (env_now e) u cid decision s))"
| "handle e hdr (PostMessage gid content) s =
     snd (with_auth (env_verify e) hdr s (\<lambda>u. postMessage (env_now e) u gid content s))"
| "handle e hdr (ShareItemToGroup gid itemId) s =
     snd (with_auth (env_verify e) hdr s (\<lambda>u. shareItemToGroup (env_now e) u gid itemId s))"

text \<open>The stores the server can be in: it starts empty and serves one request after another.\<close>

inductive reachable :: "store \<Rightarrow> bool" where
  reachable_init: "reachable empty_store"
| reachable_step: "reachable s \<Longrightarrow> reachable (handle e hdr req s)"

text \<open>A sequence of requests, each with its environment and header, served in order.\<close>

fun run :: "(env \<times> string option \<times> request) list \<Rightarrow> store \<Rightarrow> store" where
  "run [] s = s"
| "run ((e, hdr, req) # rs) s = run rs (handle e hdr req s)"

section \<open>A concrete run of the server\<close>

text \<open>
  Two users register; the first adds an item, makes it available, creates a group and
  adds the second user to it; the second user claims the item. Tokens verify to the two
  user ids, and every other token is refused.
\<close>

definition demo_verify :: "string \<Rightarrow> jwt_result" where
  "demo_verify token =
     (if token = ''t1'' then Payload (Some 1) ''ana@example.com''
      else if token = ''t2'' then Payload (Some 2) ''bogdan@example.com''
      else if token = ''t3'' then Payload (Some 3) ''costel@example.com''
      else if token = ''old'' then TokenExpiredError
      else JsonWebTokenError)"

definition demo_env :: "timestamp \<Rightarrow> env" where
  "demo_env t =
     \<lparr>env_now = t,
      env_verify = demo_verify,
      env_hash = (\<lambda>p. CHR ''#'' # p),
      env_sign = (\<lambda>uid email. if uid = 1 then ''t1'' else ''t2''),
      env_parse_date = (\<lambda>d. None)\<rparr>"

definition demo_requests :: "(env \<times> string option \<times> request) list" where
  "demo_requests =
     [(demo_env 1, None, Register (Some ''Ana'') (Some ''ana@example.com'') (Some ''pw1'')),
      (demo_env 2, None, Register (Some ''Bogdan'') (Some ''bogdan@example.com'') (Some ''pw2'')),
      (demo_env 3, Some ''Bearer t1'', CreateItem (Some ''Milk'') None None),
      (demo_env 4, Some ''Bearer t1'', SetItemStatus 1 ''AVAILABLE''),
      (demo_env 5, Some ''Bearer t1'', CreateGroup (Some ''Vecini'')),
      (demo_env 6, Some ''Bearer t1'', AddMember 1 (Some 2) None),
      (demo_env 7, Some ''Bearer t2'', CreateClaim (Some 1))]"

definition demo_store :: store where
  "demo_store = run demo_requests empty_store"

definition demo_ana :: user where
  "demo_ana = \<lparr>user_id = 1, user_name = ''Ana'', user_email = ''ana@example.com'',
     user_passwordHash = ''#pw1'', user_createdAt = 1\<rparr>"

definition demo_bogdan :: user where
  "demo_bogdan = \<lparr>user_id = 2, user_name = ''Bogdan'', user_email = ''bogdan@example.com'',
     user_passwordHash = ''#pw2'', user_createdAt = 2\<rparr>"

definition demo_milk :: food_item where
  "demo_milk = \<lparr>item_id = 1, item_title = ''Milk'', item_status = ''AVAILABLE'',
     item_expiresAt = None, item_ownerId = 1, item_categoryId = None, item_createdAt = 3\<rparr>"

definition demo_claim :: claim where
  "demo_claim = \<lparr>claim_id = 1, claim_itemId = 1, claim_claimerId = 2,
     claim_status = ''PENDING'', claim_createdAt = 7, claim_decidedAt = None\<rparr>"

definition demo_group :: friend_group where
  "demo_group = \<lparr>group_id = 1, group_name = ''Vecini'', group_ownerId = 1, group_createdAt = 5\<rparr>"

text \<open>The run continued: the owner accepts the claim at time 8.\<close>

definition accepted_store :: store where
  "accepted_store = handle (demo_env 8) (Some ''Bearer t1'') (DecideClaim 1 ''ACCEPTED'') demo_store"

text \<open>
  The run continued another way: the owner posts \<open>n\<close> messages to the group, the
  \<open>k\<close>-th at time \<open>100 + k\<close>.
\<close>

definition chat_message :: "nat \<Rightarrow> group_message" where
  "chat_message k = \<lparr>message_id = int k, message_groupId = 1, message_authorId = 1,
     message_content = ''salut'', message_createdAt = 100 + int k\<rparr>"

definition chat_row :: "nat \<Rightarrow> group_message \<times> user option" where
  "chat_row k = (chat_message k, Some demo_ana)"

definition chat_store :: "nat \<Rightarrow> store" where
  "chat_store n = demo_store\<lparr>groupMessages := map chat_message [1..<Suc n]\<rparr>"

section \<open>Constraints of the schema that the claims rely on\<close>



section \<open>Lemmas about the store operations\<close>

lemma find_map_key:
  assumes "\<And>x. Q (g x) = Q x"
  shows "find Q (map g xs) = map_option g (find Q xs)"
  using assms by (induction xs) auto

lemma demo_store_eq:
  "demo_store =
     \<lparr>users = [demo_ana, demo_bogdan],
      foodCategories =
        [\<lparr>category_id = 1, category_name = ''Lactate'', category_createdAt = 3\<rparr>,
         \<lparr>category_id = 2, category_name = ''Legume'', category_createdAt = 3\<rparr>,
         \<lparr>category_id = 3, category_name = ''Fructe'', category_createdAt = 3\<rparr>,
         \<lparr>category_id = 4, category_name = ''Carne'', category_createdAt = 3\<rparr>,
         \<lparr>category_id = 5, category_name = ''Conserve'', category_createdAt = 3\<rparr>,
         \<lparr>category_id = 6, category_name = category_defaults ! 5, category_createdAt = 3\<rparr>],
      foodItems = [demo_milk],
      friendGroups = [demo_group],
      groupMembers = [\<lparr>member_id = 1, member_groupId = 1, member_userId = 2,
                       member_tag = None, member_createdAt = 6\<rparr>],
      claims = [demo_claim],
      groupShares = [], groupMessages = [], donations = []\<rparr>"
  by code_simp

lemma fold_max_ge: "a \<le> fold max xs (a::int)"
  by (induction xs arbitrary: a) (auto intro: order_trans[OF max.cobounded2])


lemma fold_max_mem: "x \<in> set xs \<Longrightarrow> x \<le> fold max xs (a::int)"
proof (induction xs arbitrary: a)
  case Nil then show ?case by simp
next
  case (Cons y ys)
  show ?case
  proof (cases "x = y")
    case True
    have "max y a \<le> fold max ys (max y a)" by (rule fold_max_ge)
    with True show ?thesis by simp
  next
    case False
    with Cons show ?thesis by simp
  qed
qed

lemma next_id_fresh: "x \<in> set ids \<Longrightarrow> x < next_id ids"
  using fold_max_mem[of x ids 0] by (simp add: next_id_def)

lemma find_append:
  "find P (xs @ ys) = (case find P xs of None \<Rightarrow> find P ys | Some x \<Rightarrow> Some x)"
  by (induction xs) auto

lemma update_row_None: "update_row P f xs = None \<longleftrightarrow> find P xs = None"
  by (simp add: update_row_def split: option.splits)

lemma update_row_Some:
  "update_row P f xs = Some (y, ys) \<longleftrightarrow>
     (\<exists>x. find P xs = Some x \<and> y = f x \<and> ys = map (\<lambda>z. if P z then f z else z) xs)"
  by (auto simp: update_row_def split: option.splits)

lemma decideClaim_owner:
  assumes c: "find (\<lambda>c. claim_id c = cid) (claims s) = Some c"
      and i: "find (\<lambda>i. item_id i = claim_itemId c) (foodItems s) = Some it"
      and o: "item_ownerId it = user_id usr"
      and d: "decision = ''ACCEPTED'' \<or> decision = ''REJECTED''"
  shows "decideClaim now usr cid decision s =
    (Inr \<lparr>cj_claim = c\<lparr>claim_status := decision, claim_decidedAt := Some now\<rparr>,
          cj_item = Some it,
          cj_claimer = find (\<lambda>u. user_id u = claim_claimerId c) (users s)\<rparr>,
     s\<lparr>claims := map (\<lambda>x. if claim_id x = cid
                            then x\<lparr>claim_status := decision, claim_decidedAt := Some now\<rparr>
                            else x) (claims s),
       foodItems := (if decision = ''ACCEPTED''
                     then map (\<lambda>x. if item_id x = claim_itemId c
                                    then x\<lparr>item_status := ''CLAIMED''\<rparr> else x) (foodItems s)
                     else foodItems s)\<rparr>)"
  using d unfolding decideClaim_def
  by (auto simp: c i o update_row_def join_claim_def)

lemma decideClaim_not_owner:
  assumes c: "find (\<lambda>c. claim_id c = cid) (claims s) = Some c"
      and i: "find (\<lambda>i. item_id i = claim_itemId c) (foodItems s) = Some it"
      and o: "item_ownerId it \<noteq> user_id usr"
      and d: "decision = ''ACCEPTED'' \<or> decision = ''REJECTED''"
  shows "decideClaim now usr cid decision s = (Inl (Forbidden ''Not allowed''), s)"
  using d unfolding decideClaim_def
  by (auto simp: c i o)

lemma demo_find_claim: "find (\<lambda>c. claim_id c = 1) (claims demo_store) = Some demo_claim"
  by (simp add: demo_store_eq demo_claim_def)

lemma demo_find_milk:
  "find (\<lambda>i. item_id i = claim_itemId demo_claim) (foodItems demo_store) = Some demo_milk"
  by (simp add: demo_store_eq demo_claim_def demo_milk_def)

section \<open>Deciding a claim\<close>

text \<open>
  Claim C1. Take a claim and the item it refers to. When the caller owns the item,
  \<open>decideClaim\<close> with decision ACCEPTED succeeds, leaves the claim with status ACCEPTED and
  \<open>decidedAt\<close> set to the time of the request, and leaves the item with status CLAIMED;
  with decision REJECTED it succeeds, leaves the claim with status REJECTED and
  \<open>decidedAt\<close> set, and changes nothing in the store but that claim row (the items in
  particular are as before). When the caller does not own the item, both decisions are
  answered with Forbidden and the store is unchanged.
\<close>

theorem decideClaim_decision:
  assumes "find (\<lambda>c. claim_id c = cid) (claims s) = Some c"
      and "find (\<lambda>i. item_id i = claim_itemId c) (foodItems s) = Some it"
  shows
    "(item_ownerId it = user_id usr \<longrightarrow>
        (\<exists>r. fst (decideClaim now usr cid ''ACCEPTED'' s) = Inr r)
        \<and> find (\<lambda>c. claim_id c = cid) (claims (snd (decideClaim now usr cid ''ACCEPTED'' s)))
            = Some (c\<lparr>claim_status := ''ACCEPTED'', claim_decidedAt := Some now\<rparr>)
        \<and> find (\<lambda>i. item_id i = claim_itemId c)
              (foodItems (snd (decideClaim now usr cid ''ACCEPTED'' s)))
            = Some (it\<lparr>item_status := ''CLAIMED''\<rparr>)
        \<and> (\<exists>r. fst (decideClaim now usr cid ''REJECTED'' s) = Inr r)
        \<and> find (\<lambda>c. claim_id c = cid) (claims (snd (decideClaim now usr cid ''REJECTED'' s)))
            = Some (c\<lparr>claim_status := ''REJECTED'', claim_decidedAt := Some now\<rparr>)
        \<and> snd (decideClaim now usr cid ''REJECTED'' s)
            = s\<lparr>claims := map (\<lambda>x. if claim_id x = cid
                                     then x\<lparr>claim_status := ''REJECTED'', claim_decidedAt := Some now\<rparr>
                                     else x) (claims s)\<rparr>
        \<and> foodItems (snd (decideClaim now usr cid ''REJECTED'' s)) = foodItems s)
     \<and> (item_ownerId it \<noteq> user_id usr \<longrightarrow>
          decideClaim now usr cid ''ACCEPTED'' s = (Inl (Forbidden ''Not allowed''), s)
          \<and> decideClaim now usr cid ''REJECTED'' s = (Inl (Forbidden ''Not allowed''), s))"
proof (intro conjI impI)
  assume o: "item_ownerId it = user_id usr"
  have fc: "\<And>d. find (\<lambda>c. claim_id c = cid)
              (map (\<lambda>x. if claim_id x = cid then x\<lparr>claim_status := d, claim_decidedAt := Some now\<rparr>
                         else x) (claims s))
            = Some (c\<lparr>claim_status := d, claim_decidedAt := Some now\<rparr>)"
    using assms(1) by (subst find_map_key) (auto simp: find_Some_iff)
  have fi: "find (\<lambda>i. item_id i = claim_itemId c)
              (map (\<lambda>x. if item_id x = claim_itemId c then x\<lparr>item_status := ''CLAIMED''\<rparr> else x)
                 (foodItems s))
            = Some (it\<lparr>item_status := ''CLAIMED''\<rparr>)"
    using assms(2) by (subst find_map_key) (auto simp: find_Some_iff)
  note A = decideClaim_owner[OF assms o, of "''ACCEPTED''" now, simplified]
  note R = decideClaim_owner[OF assms o, of "''REJECTED''" now, simplified]
  show "\<exists>r. fst (decideClaim now usr cid ''ACCEPTED'' s) = Inr r" by (simp add: A)
  show "find (\<lambda>c. claim_id c = cid) (claims (snd (decideClaim now usr cid ''ACCEPTED'' s)))
            = Some (c\<lparr>claim_status := ''ACCEPTED'', claim_decidedAt := Some now\<rparr>)"
    by (simp add: A fc)
  show "find (\<lambda>i. item_id i = claim_itemId c)
              (foodItems (snd (decideClaim now usr cid ''ACCEPTED'' s)))
            = Some (it\<lparr>item_status := ''CLAIMED''\<rparr>)"
    by (simp add: A fi)
  show "\<exists>r. fst (decideClaim now usr cid ''REJECTED'' s) = Inr r" by (simp add: R)
  show "find (\<lambda>c. claim_id c = cid) (claims (snd (decideClaim now usr cid ''REJECTED'' s)))
            = Some (c\<lparr>claim_status := ''REJECTED'', claim_decidedAt := Some now\<rparr>)"
    by (simp add: R fc)
  show "snd (decideClaim now usr cid ''REJECTED'' s)
            = s\<lparr>claims := map (\<lambda>x. if claim_id x = cid
                                     then x\<lparr>claim_status := ''REJECTED'', claim_decidedAt := Some now\<rparr>
                                     else x) (claims s)\<rparr>"
    by (simp add: R)
  show "foodItems (snd (decideClaim now usr cid ''REJECTED'' s)) = foodItems s"
    by (simp add: R)
next
  assume o: "item_ownerId it \<noteq> user_id usr"
  show "decideClaim now usr cid ''ACCEPTED'' s = (Inl (Forbidden ''Not allowed''), s)"
    by (rule decideClaim_not_owner[OF assms o]) simp
  show "decideClaim now usr cid ''REJECTED'' s = (Inl (Forbidden ''Not allowed''), s)"
    by (rule decideClaim_not_owner[OF assms o]) simp
qed

theorem decideClaim_decision_witness:
  "find (\<lambda>c. claim_id c = 1) (claims demo_store) = Some demo_claim
   \<and> find (\<lambda>i. item_id i = claim_itemId demo_claim) (foodItems demo_store) = Some demo_milk
   \<and> item_ownerId demo_milk = user_id demo_ana
   \<and> item_ownerId demo_milk \<noteq> user_id demo_bogdan
   \<and> find (\<lambda>c. claim_id c = 1) (claims (snd (decideClaim 8 demo_ana 1 ''ACCEPTED'' demo_store)))
       = Some (demo_claim\<lparr>claim_status := ''ACCEPTED'', claim_decidedAt := Some 8\<rparr>)
   \<and> find (\<lambda>i. item_id i = claim_itemId demo_claim)
         (foodItems (snd (decideClaim 8 demo_ana 1 ''ACCEPTED'' demo_store)))
       = Some (demo_milk\<lparr>item_status := ''CLAIMED''\<rparr>)
   \<and> foodItems (snd (decideClaim 8 demo_ana 1 ''REJECTED'' demo_store)) = foodItems demo_store
   \<and> decideClaim 8 demo_bogdan 1 ''ACCEPTED'' demo_store = (Inl (Forbidden ''Not allowed''), demo_store)
   \<and> decideClaim 8 demo_bogdan 1 ''REJECTED'' demo_store = (Inl (Forbidden ''Not allowed''), demo_store)"
proof -
  have a: "item_ownerId demo_milk = user_id demo_ana"
    by (simp add: demo_milk_def demo_ana_def)
  have b: "item_ownerId demo_milk \<noteq> user_id demo_bogdan"
    by (simp add: demo_milk_def demo_bogdan_def)
  show ?thesis
    using decideClaim_decision[OF demo_find_claim demo_find_milk, of demo_ana 8]
      decideClaim_decision[OF demo_find_claim demo_find_milk, of demo_bogdan 8]
      demo_find_claim demo_find_milk a b
    by simp
qed

text \<open>
  Claim C10. When the owner accepts a claim, the answer is the updated claim with the
  item joined as it was before the request (so with the status it had then, AVAILABLE
  for an available item), although the store's item row has status CLAIMED afterwards:
  the item row is updated after the claim row has been read back for the answer.
\<close>

theorem decideClaim_response_item:
  assumes "find (\<lambda>c. claim_id c = cid) (claims s) = Some c"
      and "find (\<lambda>i. item_id i = claim_itemId c) (foodItems s) = Some it"
      and "item_ownerId it = user_id usr"
  shows "fst (decideClaim now usr cid ''ACCEPTED'' s)
           = Inr \<lparr>cj_claim = c\<lparr>claim_status := ''ACCEPTED'', claim_decidedAt := Some now\<rparr>,
                  cj_item = Some it,
                  cj_claimer = find (\<lambda>u. user_id u = claim_claimerId c) (users s)\<rparr>
         \<and> find (\<lambda>i. item_id i = claim_itemId c)
              (foodItems (snd (decideClaim now usr cid ''ACCEPTED'' s)))
            = Some (it\<lparr>item_status := ''CLAIMED''\<rparr>)"
proof -
  have fi: "find (\<lambda>i. item_id i = claim_itemId c)
              (map (\<lambda>x. if item_id x = claim_itemId c then x\<lparr>item_status := ''CLAIMED''\<rparr> else x)
                 (foodItems s))
            = Some (it\<lparr>item_status := ''CLAIMED''\<rparr>)"
    using assms(2) by (subst find_map_key) (auto simp: find_Some_iff)
  show ?thesis
    by (simp add: decideClaim_owner[OF assms, of "''ACCEPTED''" now, simplified] fi)
qed

theorem decideClaim_response_item_witness:
  "find (\<lambda>c. claim_id c = 1) (claims demo_store) = Some demo_claim
   \<and> find (\<lambda>i. item_id i = claim_itemId demo_claim) (foodItems demo_store) = Some demo_milk
   \<and> item_ownerId demo_milk = user_id demo_ana
   \<and> item_status demo_milk = ''AVAILABLE''
   \<and> fst (decideClaim 8 demo_ana 1 ''ACCEPTED'' demo_store)
       = Inr \<lparr>cj_claim = demo_claim\<lparr>claim_status := ''ACCEPTED'', claim_decidedAt := Some 8\<rparr>,
              cj_item = Some demo_milk,
              cj_claimer = Some demo_bogdan\<rparr>
   \<and> find (\<lambda>i. item_id i = claim_itemId demo_claim)
         (foodItems (snd (decideClaim 8 demo_ana 1 ''ACCEPTED'' demo_store)))
       = Some (demo_milk\<lparr>item_status := ''CLAIMED''\<rparr>)"
proof -
  have a: "item_ownerId demo_milk = user_id demo_ana"
    by (simp add: demo_milk_def demo_ana_def)
  have u: "find (\<lambda>u. user_id u = claim_claimerId demo_claim) (users demo_store) = Some demo_bogdan"
    by (simp add: demo_store_eq demo_claim_def demo_ana_def demo_bogdan_def)
  show ?thesis
    using decideClaim_response_item[OF demo_find_claim demo_find_milk a, of 8]
      demo_find_claim demo_find_milk a u
    by (simp add: demo_milk_def)
qed

lemma authMiddleware_error:
  "authMiddleware verify hdr s = Inl e \<Longrightarrow> e = Unauthorized ''Unauthorized''"
  by (auto simp: authMiddleware_def split: option.splits if_splits jwt_result.splits)

lemma authMiddleware_no_token:
  "bearer_token hdr = None \<or> bearer_token hdr = Some [] \<Longrightarrow>
     authMiddleware verify hdr s = Inl (Unauthorized ''Unauthorized'')"
  by (auto simp: authMiddleware_def)

lemma authMiddleware_token:
  "bearer_token hdr = Some t \<Longrightarrow> t \<noteq> [] \<Longrightarrow>
     authMiddleware verify hdr s =
       (case verify t of
          Payload (Some uid) email \<Rightarrow>
            (case find (\<lambda>u. user_id u = uid) (users s) of
               None \<Rightarrow> Inl (Unauthorized ''Unauthorized'')
             | Some u \<Rightarrow> Inr u)
        | _ \<Rightarrow> Inl (Unauthorized ''Unauthorized''))"
  by (simp add: authMiddleware_def)

section \<open>Authentication of a request\<close>

text \<open>
  Claim C8. \<open>authMiddleware\<close> answers Unauthorized (401) when the header is absent, is
  not a bearer header or carries an empty token; when the token does not verify (invalid
  or expired); and when the user id of a verified token is that of no user in the store,
  as it is once the user's row is gone. In every other case the user found is attached
  and the handler runs with it. The middleware fails in no other way, and a failed
  authentication leaves the store as it was.
\<close>

theorem authMiddleware_unauthorized:
  "(hdr = None \<or> bearer_token hdr = None \<or> bearer_token hdr = Some []
      \<longrightarrow> authMiddleware verify hdr s = Inl (Unauthorized ''Unauthorized''))
   \<and> (bearer_token hdr = Some t \<and> t \<noteq> [] \<longrightarrow>
         (verify t = JsonWebTokenError \<or> verify t = TokenExpiredError \<or> verify t = Payload None email
            \<longrightarrow> authMiddleware verify hdr s = Inl (Unauthorized ''Unauthorized''))
         \<and> (verify t = Payload (Some uid) email \<longrightarrow>
               (find (\<lambda>u. user_id u = uid) (users s) = None \<longrightarrow>
                  authMiddleware verify hdr s = Inl (Unauthorized ''Unauthorized''))
               \<and> (find (\<lambda>u. user_id u = uid) (users s) = Some u \<longrightarrow>
                     authMiddleware verify hdr s = Inr u
                     \<and> with_auth verify hdr s handler = handler u)))
   \<and> (authMiddleware verify hdr s = Inl e \<longrightarrow>
         e = Unauthorized ''Unauthorized'' \<and> http_status e = 401
         \<and> with_auth verify hdr s handler = (Inl e, s))"
proof -
  have 1: "hdr = None \<or> bearer_token hdr = None \<or> bearer_token hdr = Some []
      \<longrightarrow> authMiddleware verify hdr s = Inl (Unauthorized ''Unauthorized'')"
    using authMiddleware_no_token[of hdr verify s] by (auto simp: bearer_token_def)
  have 2: "bearer_token hdr = Some t \<and> t \<noteq> [] \<longrightarrow>
         (verify t = JsonWebTokenError \<or> verify t = TokenExpiredError \<or> verify t = Payload None email
            \<longrightarrow> authMiddleware verify hdr s = Inl (Unauthorized ''Unauthorized''))
         \<and> (verify t = Payload (Some uid) email \<longrightarrow>
               (find (\<lambda>u. user_id u = uid) (users s) = None \<longrightarrow>
                  authMiddleware verify hdr s = Inl (Unauthorized ''Unauthorized''))
               \<and> (find (\<lambda>u. user_id u = uid) (users s) = Some u \<longrightarrow>
                     authMiddleware verify hdr s = Inr u
                     \<and> with_auth verify hdr s handler = handler u))"
    by (auto simp: authMiddleware_token with_auth_def)
  have 3: "authMiddleware verify hdr s = Inl e \<longrightarrow>
         e = Unauthorized ''Unauthorized'' \<and> http_status e = 401
         \<and> with_auth verify hdr s handler = (Inl e, s)"
    using authMiddleware_error[of verify hdr s e] by (auto simp: with_auth_def)
  from 1 2 3 show ?thesis by blast
qed


theorem authMiddleware_unauthorized_witness:
  "authMiddleware demo_verify None demo_store = Inl (Unauthorized ''Unauthorized'')
   \<and> authMiddleware demo_verify (Some ''Bearer '') demo_store = Inl (Unauthorized ''Unauthorized'')
   \<and> authMiddleware demo_verify (Some ''Bearer old'') demo_store = Inl (Unauthorized ''Unauthorized'')
   \<and> authMiddleware demo_verify (Some ''Bearer forged'') demo_store = Inl (Unauthorized ''Unauthorized'')
   \<and> authMiddleware demo_verify (Some ''Bearer t3'') demo_store = Inl (Unauthorized ''Unauthorized'')
   \<and> authMiddleware demo_verify (Some ''Bearer t2'') (demo_store\<lparr>users := [demo_ana]\<rparr>)
       = Inl (Unauthorized ''Unauthorized'')
   \<and> authMiddleware demo_verify (Some ''Bearer t2'') demo_store = Inr demo_bogdan
   \<and> with_auth demo_verify (Some ''Bearer t2'') demo_store (\<lambda>u. createClaim 7 u None demo_store)
       = createClaim 7 demo_bogdan None demo_store"
proof -
  have b: "bearer_token (Some ''Bearer '') = Some []"
    "bearer_token (Some ''Bearer old'') = Some ''old''"
    "bearer_token (Some ''Bearer forged'') = Some ''forged''"
    "bearer_token (Some ''Bearer t3'') = Some ''t3''"
    "bearer_token (Some ''Bearer t2'') = Some ''t2''"
    by (simp_all add: bearer_token_def)
  have v: "demo_verify ''old'' = TokenExpiredError" "demo_verify ''forged'' = JsonWebTokenError"
    "demo_verify ''t3'' = Payload (Some 3) ''costel@example.com''"
    "demo_verify ''t2'' = Payload (Some 2) ''bogdan@example.com''"
    by (simp_all add: demo_verify_def)
  have f: "find (\<lambda>u. user_id u = 3) (users demo_store) = None"
    "find (\<lambda>u. user_id u = 2) (users demo_store) = Some demo_bogdan"
    "find (\<lambda>u. user_id u = 2) (users (demo_store\<lparr>users := [demo_ana]\<rparr>)) = None"
    by (simp_all add: demo_store_eq demo_ana_def demo_bogdan_def)
  have 1: "authMiddleware demo_verify None demo_store = Inl (Unauthorized ''Unauthorized'')"
    using authMiddleware_unauthorized[where hdr = None and verify = demo_verify and s = demo_store,
        THEN conjunct1]
    by simp
  have 2: "authMiddleware demo_verify (Some ''Bearer '') demo_store = Inl (Unauthorized ''Unauthorized'')"
    using authMiddleware_unauthorized[where hdr = "Some ''Bearer ''" and verify = demo_verify
        and s = demo_store, THEN conjunct1] b(1)
    by simp
  have 3: "authMiddleware demo_verify (Some ''Bearer old'') demo_store = Inl (Unauthorized ''Unauthorized'')"
    using authMiddleware_unauthorized[where hdr = "Some ''Bearer old''" and verify = demo_verify
        and s = demo_store and t = "''old''", THEN conjunct2, THEN conjunct1] b(2) v(1)
    by simp
  have 4: "authMiddleware demo_verify (Some ''Bearer forged'') demo_store = Inl (Unauthorized ''Unauthorized'')"
    using authMiddleware_unauthorized[where hdr = "Some ''Bearer forged''" and verify = demo_verify
        and s = demo_store and t = "''forged''", THEN conjunct2, THEN conjunct1] b(3) v(2)
    by simp
  have 5: "authMiddleware demo_verify (Some ''Bearer t3'') demo_store = Inl (Unauthorized ''Unauthorized'')"
    using authMiddleware_unauthorized[where hdr = "Some ''Bearer t3''" and verify = demo_verify
        and s = demo_store and t = "''t3''" and uid = 3 and email = "''costel@example.com''",
        THEN conjunct2, THEN conjunct1]
      b(4) v(3) f(1)
    by simp
  have 6: "authMiddleware demo_verify (Some ''Bearer t2'') (demo_store\<lparr>users := [demo_ana]\<rparr>)
       = Inl (Unauthorized ''Unauthorized'')"
    using authMiddleware_unauthorized[where hdr = "Some ''Bearer t2''" and verify = demo_verify
        and s = "demo_store\<lparr>users := [demo_ana]\<rparr>" and t = "''t2''" and uid = 2
        and email = "''bogdan@example.com''", THEN conjunct2, THEN conjunct1]
      b(5) v(4) f(3)
    by simp
  have 7: "authMiddleware demo_verify (Some ''Bearer t2'') demo_store = Inr demo_bogdan
     \<and> with_auth demo_verify (Some ''Bearer t2'') demo_store (\<lambda>u. createClaim 7 u None demo_store)
       = createClaim 7 demo_bogdan None demo_store"
    using authMiddleware_unauthorized[where hdr = "Some ''Bearer t2''" and verify = demo_verify
        and s = demo_store and t = "''t2''" and uid = 2 and email = "''bogdan@example.com''"
        and u = demo_bogdan and handler = "\<lambda>u. createClaim 7 u None demo_store",
        THEN conjunct2, THEN conjunct1]
      b(5) v(4) f(2)
    by simp
  from 1 2 3 4 5 6 7 show ?thesis by blast
qed

lemma setItemStatus_invalid:
  "status \<notin> set [''IN_FRIDGE'', ''AVAILABLE'', ''CLAIMED''] \<Longrightarrow>
     setItemStatus usr iid status s = (Inl (BadRequest ''invalid status''), s)"
  by (simp add: setItemStatus_def)

lemma setItemStatus_none:
  assumes "status \<in> set [''IN_FRIDGE'', ''AVAILABLE'', ''CLAIMED'']"
      and "find (\<lambda>i. item_id i = iid \<and> item_ownerId i = user_id usr) (foodItems s) = None"
  shows "setItemStatus usr iid status s = (Inl (Internal ''Failed to update item''), s)"
  using assms by (simp add: setItemStatus_def update_row_def)

lemma setItemStatus_some:
  assumes "status \<in> set [''IN_FRIDGE'', ''AVAILABLE'', ''CLAIMED'']"
      and "find (\<lambda>i. item_id i = iid \<and> item_ownerId i = user_id usr) (foodItems s) = Some it"
  shows "setItemStatus usr iid status s =
           (Inr (it\<lparr>item_status := status\<rparr>),
            s\<lparr>foodItems := map (\<lambda>i. if item_id i = iid \<and> item_ownerId i = user_id usr
                                      then i\<lparr>item_status := status\<rparr> else i) (foodItems s)\<rparr>)"
  using assms by (simp add: setItemStatus_def update_row_def)

section \<open>Changing an item's status\<close>

text \<open>
  Claim C2 says that \<open>setItemStatus\<close> on an item the caller does not own fails with
  NotFound (404). In the recorded run the second user asks for a new status of the first
  user's item 1, and of an item 99 that nobody has: both requests are answered with the
  internal error of the handler's \<^verbatim>\<open>catch\<close>, status 500, and the store is unchanged.
\<close>

theorem setItemStatus_not_owned_counterexample:
  "setItemStatus demo_bogdan 1 ''AVAILABLE'' demo_store
     = (Inl (Internal ''Failed to update item''), demo_store)
   \<and> setItemStatus demo_bogdan 99 ''AVAILABLE'' demo_store
     = (Inl (Internal ''Failed to update item''), demo_store)
   \<and> http_status (Internal ''Failed to update item'') = 500
   \<and> item_id demo_milk = 1 \<and> demo_milk \<in> set (foodItems demo_store)"
  by (simp add: setItemStatus_def update_row_def demo_store_eq demo_milk_def demo_bogdan_def)

text \<open>
  Claim C2, amended. For a valid status, \<open>setItemStatus\<close> on an item id for which the
  caller owns no item (whether or not another user owns an item with that id) fails with
  the internal error ``Failed to update item'' (500) and leaves the store unchanged; when
  the caller owns the item, exactly the rows matching both the id and the caller's id are
  rewritten with the new status, and the rewritten row is the answer.
\<close>

theorem setItemStatus_not_owned:
  assumes "status \<in> set [''IN_FRIDGE'', ''AVAILABLE'', ''CLAIMED'']"
  shows
    "(\<not> (\<exists>i \<in> set (foodItems s). item_id i = iid \<and> item_ownerId i = user_id usr) \<longrightarrow>
        setItemStatus usr iid status s = (Inl (Internal ''Failed to update item''), s)
        \<and> http_status (Internal ''Failed to update item'') = 500)
     \<and> (find (\<lambda>i. item_id i = iid \<and> item_ownerId i = user_id usr) (foodItems s) = Some it \<longrightarrow>
          setItemStatus usr iid status s =
            (Inr (it\<lparr>item_status := status\<rparr>),
             s\<lparr>foodItems := map (\<lambda>i. if item_id i = iid \<and> item_ownerId i = user_id usr
                                       then i\<lparr>item_status := status\<rparr> else i) (foodItems s)\<rparr>))"
proof (intro conjI impI)
  assume "\<not> (\<exists>i \<in> set (foodItems s). item_id i = iid \<and> item_ownerId i = user_id usr)"
  then have "find (\<lambda>i. item_id i = iid \<and> item_ownerId i = user_id usr) (foodItems s) = None"
    by (auto simp: find_None_iff)
  then show "setItemStatus usr iid status s = (Inl (Internal ''Failed to update item''), s)"
    by (rule setItemStatus_none[OF assms])
next
  show "http_status (Internal ''Failed to update item'') = 500" by simp
next
  assume "find (\<lambda>i. item_id i = iid \<and> item_ownerId i = user_id usr) (foodItems s) = Some it"
  then show "setItemStatus usr iid status s =
            (Inr (it\<lparr>item_status := status\<rparr>),
             s\<lparr>foodItems := map (\<lambda>i. if item_id i = iid \<and> item_ownerId i = user_id usr
                                       then i\<lparr>item_status := status\<rparr> else i) (foodItems s)\<rparr>)"
    by (rule setItemStatus_some[OF assms])
qed

theorem setItemStatus_not_owned_witness:
  "''CLAIMED'' \<in> set [''IN_FRIDGE'', ''AVAILABLE'', ''CLAIMED'']
   \<and> \<not> (\<exists>i \<in> set (foodItems demo_store). item_id i = 1 \<and> item_ownerId i = user_id demo_bogdan)
   \<and> setItemStatus demo_bogdan 1 ''CLAIMED'' demo_store
       = (Inl (Internal ''Failed to update item''), demo_store)
   \<and> find (\<lambda>i. item_id i = 1 \<and> item_ownerId i = user_id demo_ana) (foodItems demo_store)
       = Some demo_milk
   \<and> setItemStatus demo_ana 1 ''CLAIMED'' demo_store
       = (Inr (demo_milk\<lparr>item_status := ''CLAIMED''\<rparr>),
          demo_store\<lparr>foodItems := [demo_milk\<lparr>item_status := ''CLAIMED''\<rparr>]\<rparr>)"
proof -
  have v: "''CLAIMED'' \<in> set [''IN_FRIDGE'', ''AVAILABLE'', ''CLAIMED'']" by simp
  have n: "\<not> (\<exists>i \<in> set (foodItems demo_store). item_id i = 1 \<and> item_ownerId i = user_id demo_bogdan)"
    by (simp add: demo_store_eq demo_milk_def demo_bogdan_def)
  have f: "find (\<lambda>i. item_id i = 1 \<and> item_ownerId i = user_id demo_ana) (foodItems demo_store)
       = Some demo_milk"
    by (simp add: demo_store_eq demo_milk_def demo_ana_def)
  have m: "map (\<lambda>i. if item_id i = 1 \<and> item_ownerId i = user_id demo_ana
                     then i\<lparr>item_status := ''CLAIMED''\<rparr> else i) (foodItems demo_store)
           = [demo_milk\<lparr>item_status := ''CLAIMED''\<rparr>]"
    by (simp add: demo_store_eq demo_milk_def demo_ana_def)
  show ?thesis
    using setItemStatus_not_owned[OF v, of demo_store 1 demo_bogdan, THEN conjunct1]
      setItemStatus_not_owned[OF v, of demo_store 1 demo_ana demo_milk, THEN conjunct2]
      v n f m
    by simp
qed

lemma ensureCategories_Some:
  "ensureCategories now s = Some s1 \<Longrightarrow> s1 = s\<lparr>foodCategories := foodCategories s1\<rparr>"
  by (auto simp: ensureCategories_def Let_def split: if_splits)

lemma ensureCategories_frame:
  assumes "ensureCategories now s = Some s1"
  shows "users s1 = users s" "foodItems s1 = foodItems s" "friendGroups s1 = friendGroups s"
    "groupMembers s1 = groupMembers s" "claims s1 = claims s" "groupShares s1 = groupShares s"
    "groupMessages s1 = groupMessages s" "donations s1 = donations s"
  by (subst ensureCategories_Some[OF assms], simp)+

lemma createItem_no_title:
  "falsy_str title \<Longrightarrow>
     createItem pd now usr title categoryId expiresAt s = (Inl (BadRequest ''title is required''), s)"
  by (simp add: createItem_def)

lemma createItem_Inr:
  assumes "createItem pd now usr title categoryId expiresAt s = (Inr (it, cat), s')"
  shows "\<exists>s1 ex. ensureCategories now s = Some s1
           \<and> it = \<lparr>item_id = next_id (map item_id (foodItems s)),
                    item_title = field_str title, item_status = ''IN_FRIDGE'',
                    item_expiresAt = ex, item_ownerId = user_id usr,
                    item_categoryId = (if falsy_int categoryId then None else categoryId),
                    item_createdAt = now\<rparr>
           \<and> s' = s1\<lparr>foodItems := foodItems s @ [it]\<rparr>
           \<and> cat = (case item_categoryId it of None \<Rightarrow> None
                     | Some k \<Rightarrow> find (\<lambda>c. category_id c = k) (foodCategories s1))
           \<and> (case item_categoryId it of None \<Rightarrow> True
               | Some k \<Rightarrow> find (\<lambda>c. category_id c = k) (foodCategories s1) \<noteq> None)"
proof -
  from assms obtain s1 where s1: "ensureCategories now s = Some s1"
    by (auto simp: createItem_def split: if_splits option.splits)
  note fr = ensureCategories_frame[OF s1]
  from assms show ?thesis
    unfolding createItem_def Let_def s1
    by (auto simp: fr split: if_splits option.splits)
qed

lemma createItem_Inl:
  assumes "createItem pd now usr title categoryId expiresAt s = (Inl e, s')"
  shows "foodItems s' = foodItems s"
proof (cases "ensureCategories now s")
  case None
  with assms show ?thesis by (auto simp: createItem_def split: if_splits)
next
  case (Some s1)
  from assms have "s' = s \<or> s' = s1"
    unfolding createItem_def Let_def Some
    by (auto split: if_splits option.splits)
  then show ?thesis
    using ensureCategories_frame(2)[OF Some] by auto
qed


section \<open>Creating an item\<close>

text \<open>
  Claim C9. \<open>createItem\<close> fails with BadRequest when the title is absent or empty. When
  it succeeds, the new item is appended to the items with status IN_FRIDGE, and its
  category id is null or the id of a category of the store. A category id that is the id
  of no category is not stored: the request fails and the items are as before.
\<close>

theorem createItem_created:
  "(falsy_str title \<longrightarrow>
      createItem pd now usr title categoryId expiresAt s = (Inl (BadRequest ''title is required''), s))
   \<and> (createItem pd now usr title categoryId expiresAt s = (Inr (it, cat), s') \<longrightarrow>
        item_status it = ''IN_FRIDGE''
        \<and> foodItems s' = foodItems s @ [it]
        \<and> (item_categoryId it = None
            \<or> (\<exists>c \<in> set (foodCategories s'). item_categoryId it = Some (category_id c))))
   \<and> (categoryId = Some k \<and> k \<noteq> 0
        \<and> \<not> (\<exists>c \<in> set (foodCategories (snd (createItem pd now usr title categoryId expiresAt s))).
                category_id c = k) \<longrightarrow>
        (\<exists>e. fst (createItem pd now usr title categoryId expiresAt s) = Inl e)
        \<and> foodItems (snd (createItem pd now usr title categoryId expiresAt s)) = foodItems s)"
proof (intro conjI impI)
  assume "falsy_str title"
  then show "createItem pd now usr title categoryId expiresAt s
               = (Inl (BadRequest ''title is required''), s)"
    by (rule createItem_no_title)
next
  assume r: "createItem pd now usr title categoryId expiresAt s = (Inr (it, cat), s')"
  from createItem_Inr[OF r] obtain s1 ex where
    it: "it = \<lparr>item_id = next_id (map item_id (foodItems s)),
                    item_title = field_str title, item_status = ''IN_FRIDGE'',
                    item_expiresAt = ex, item_ownerId = user_id usr,
                    item_categoryId = (if falsy_int categoryId then None else categoryId),
                    item_createdAt = now\<rparr>"
    and s': "s' = s1\<lparr>foodItems := foodItems s @ [it]\<rparr>"
    and fk: "case item_categoryId it of None \<Rightarrow> True
               | Some k \<Rightarrow> find (\<lambda>c. category_id c = k) (foodCategories s1) \<noteq> None"
    by blast
  show "item_status it = ''IN_FRIDGE''" by (simp add: it)
  show "foodItems s' = foodItems s @ [it]" by (simp add: s')
  show "item_categoryId it = None
            \<or> (\<exists>c \<in> set (foodCategories s'). item_categoryId it = Some (category_id c))"
  proof (cases "item_categoryId it")
    case None
    then show ?thesis by simp
  next
    case (Some j)
    with fk obtain c where "find (\<lambda>c. category_id c = j) (foodCategories s1) = Some c"
      by auto
    then have "c \<in> set (foodCategories s1)" "category_id c = j"
      by (auto simp: find_Some_iff)
    with Some show ?thesis by (auto simp: s')
  qed
next
  let ?r = "createItem pd now usr title categoryId expiresAt s"
  assume a: "categoryId = Some k \<and> k \<noteq> 0
        \<and> \<not> (\<exists>c \<in> set (foodCategories (snd ?r)). category_id c = k)"
  have e: "\<exists>e. fst ?r = Inl e"
  proof (cases "fst ?r")
    case (Inl e)
    then show ?thesis by simp
  next
    case (Inr p)
    then have r: "?r = (Inr (fst p, snd p), snd ?r)"
      by (simp add: prod_eq_iff)
    from createItem_Inr[OF r] obtain s1 where
      s': "snd ?r = s1\<lparr>foodItems := foodItems s @ [fst p]\<rparr>"
      and fk: "find (\<lambda>c. category_id c = k) (foodCategories s1) \<noteq> None"
      using a by auto
    from fk obtain c where "find (\<lambda>c. category_id c = k) (foodCategories s1) = Some c"
      by auto
    then have "c \<in> set (foodCategories (snd ?r))" "category_id c = k"
      by (auto simp: find_Some_iff s')
    with a show ?thesis by blast
  qed
  then show "\<exists>e. fst ?r = Inl e" .
  from e obtain e where "?r = (Inl e, snd ?r)"
    by (auto simp: prod_eq_iff)
  then show "foodItems (snd ?r) = foodItems s"
    by (rule createItem_Inl)
qed

theorem createItem_created_witness:
  "falsy_str (Some [])
   \<and> createItem (\<lambda>d. None) 9 demo_ana (Some []) (Some 1) None demo_store
       = (Inl (BadRequest ''title is required''), demo_store)
   \<and> createItem (\<lambda>d. None) 9 demo_ana (Some ''Iaurt'') (Some 1) None demo_store
       = (Inr (\<lparr>item_id = 2, item_title = ''Iaurt'', item_status = ''IN_FRIDGE'',
                 item_expiresAt = None, item_ownerId = 1, item_categoryId = Some 1,
                 item_createdAt = 9\<rparr>,
               Some \<lparr>category_id = 1, category_name = ''Lactate'', category_createdAt = 3\<rparr>),
          demo_store\<lparr>foodItems := foodItems demo_store @
             [\<lparr>item_id = 2, item_title = ''Iaurt'', item_status = ''IN_FRIDGE'',
               item_expiresAt = None, item_ownerId = 1, item_categoryId = Some 1,
               item_createdAt = 9\<rparr>]\<rparr>)
   \<and> (\<exists>c \<in> set (foodCategories demo_store). Some 1 = Some (category_id c))
   \<and> \<not> (\<exists>c \<in> set (foodCategories
              (snd (createItem (\<lambda>d. None) 9 demo_ana (Some ''Iaurt'') (Some 99) None demo_store))).
            category_id c = 99)
   \<and> (\<exists>e. fst (createItem (\<lambda>d. None) 9 demo_ana (Some ''Iaurt'') (Some 99) None demo_store) = Inl e)
   \<and> foodItems (snd (createItem (\<lambda>d. None) 9 demo_ana (Some ''Iaurt'') (Some 99) None demo_store))
       = foodItems demo_store"
proof -
  have 1: "falsy_str (Some [])" by simp
  have 2: "createItem (\<lambda>d. None) 9 demo_ana (Some ''Iaurt'') (Some 1) None demo_store
       = (Inr (\<lparr>item_id = 2, item_title = ''Iaurt'', item_status = ''IN_FRIDGE'',
                 item_expiresAt = None, item_ownerId = 1, item_categoryId = Some 1,
                 item_createdAt = 9\<rparr>,
               Some \<lparr>category_id = 1, category_name = ''Lactate'', category_createdAt = 3\<rparr>),
          demo_store\<lparr>foodItems := foodItems demo_store @
             [\<lparr>item_id = 2, item_title = ''Iaurt'', item_status = ''IN_FRIDGE'',
               item_expiresAt = None, item_ownerId = 1, item_categoryId = Some 1,
               item_createdAt = 9\<rparr>]\<rparr>)"
    by code_simp
  have 3: "\<not> (\<exists>c \<in> set (foodCategories
              (snd (createItem (\<lambda>d. None) 9 demo_ana (Some ''Iaurt'') (Some 99) None demo_store))).
            category_id c = 99)"
    by code_simp
  show ?thesis
    using createItem_created[where title = "Some []" and pd = "\<lambda>d. None" and now = 9
        and usr = demo_ana and categoryId = "Some 1" and expiresAt = None and s = demo_store,
        THEN conjunct1]
      createItem_created[where title = "Some ''Iaurt''" and pd = "\<lambda>d. None" and now = 9
        and usr = demo_ana and categoryId = "Some 1" and expiresAt = None and s = demo_store,
        THEN conjunct2, THEN conjunct1, THEN mp, OF 2]
      createItem_created[where title = "Some ''Iaurt''" and pd = "\<lambda>d. None" and now = 9
        and usr = demo_ana and categoryId = "Some 99" and expiresAt = None and s = demo_store
        and k = 99, THEN conjunct2, THEN conjunct2]
      1 2 3
    by simp
qed

lemma with_auth_snd:
  "snd (with_auth verify hdr s handler) =
     (case authMiddleware verify hdr s of Inl e \<Rightarrow> s | Inr u \<Rightarrow> snd (handler u))"
  by (simp add: with_auth_def split: sum.splits)

lemma register_frame:
  "foodItems (snd (register h sg now n e p s)) = foodItems s"
  "claims (snd (register h sg now n e p s)) = claims s"
  "groupShares (snd (register h sg now n e p s)) = groupShares s"
  by (simp_all add: register_def Let_def split: option.splits)

lemma createDonation_frame:
  "foodItems (snd (createDonation now i q l s)) = foodItems s"
  "claims (snd (createDonation now i q l s)) = claims s"
  "groupShares (snd (createDonation now i q l s)) = groupShares s"
  by (simp_all add: createDonation_def Let_def)

lemma listCategories_frame:
  "foodItems (snd (listCategories now s)) = foodItems s"
  "claims (snd (listCategories now s)) = claims s"
  "groupShares (snd (listCategories now s)) = groupShares s"
  by (auto simp: listCategories_def ensureCategories_frame split: option.splits)

lemma createItem_state:
  "snd (createItem pd now usr title categoryId expiresAt s) = s
   \<or> (\<exists>s1. ensureCategories now s = Some s1
         \<and> (snd (createItem pd now usr title categoryId expiresAt s) = s1
             \<or> snd (createItem pd now usr title categoryId expiresAt s)
                 = s1\<lparr>foodItems := foodItems s @
                      [\<lparr>item_id = next_id (map item_id (foodItems s)),
                        item_title = field_str title, item_status = ''IN_FRIDGE'',
                        item_expiresAt = (if falsy_str expiresAt then None
                                          else pd (field_str expiresAt)),
                        item_ownerId = user_id usr,
                        item_categoryId = (if falsy_int categoryId then None else categoryId),
                        item_createdAt = now\<rparr>]\<rparr>))"
proof (cases "ensureCategories now s")
  case None
  then show ?thesis by (simp add: createItem_def)
next
  case (Some s1)
  show ?thesis
    unfolding createItem_def Let_def Some
    by (auto simp: ensureCategories_frame[OF Some] split: option.splits)
qed

lemma createItem_frame:
  "claims (snd (createItem pd now usr title categoryId expiresAt s)) = claims s"
  "groupShares (snd (createItem pd now usr title categoryId expiresAt s)) = groupShares s"
  using createItem_state[of pd now usr title categoryId expiresAt s]
  by (auto simp: ensureCategories_frame)

lemma createItem_items:
  "foodItems (snd (createItem pd now usr title categoryId expiresAt s)) = foodItems s
   \<or> (\<exists>it. item_id it = next_id (map item_id (foodItems s))
         \<and> foodItems (snd (createItem pd now usr title categoryId expiresAt s)) = foodItems s @ [it])"
  using createItem_state[of pd now usr title categoryId expiresAt s]
  by (auto simp: ensureCategories_frame)

lemma setItemStatus_state:
  "snd (setItemStatus usr iid status s) = s
   \<or> (status \<in> set [''IN_FRIDGE'', ''AVAILABLE'', ''CLAIMED'']
       \<and> snd (setItemStatus usr iid status s)
           = s\<lparr>foodItems := map (\<lambda>i. if item_id i = iid \<and> item_ownerId i = user_id usr
                                      then i\<lparr>item_status := status\<rparr> else i) (foodItems s)\<rparr>)"
  by (auto simp: setItemStatus_def update_row_def split: option.splits)

lemma createGroup_frame:
  "foodItems (snd (createGroup now usr name s)) = foodItems s"
  "claims (snd (createGroup now usr name s)) = claims s"
  "groupShares (snd (createGroup now usr name s)) = groupShares s"
  by (simp_all add: createGroup_def Let_def)

lemma addMember_frame:
  "foodItems (snd (addMember now usr gid userId tag s)) = foodItems s"
  "claims (snd (addMember now usr gid userId tag s)) = claims s"
  "groupShares (snd (addMember now usr gid userId tag s)) = groupShares s"
  by (simp_all add: addMember_def Let_def split: option.splits)

lemma postMessage_frame:
  "foodItems (snd (postMessage now usr gid content s)) = foodItems s"
  "claims (snd (postMessage now usr gid content s)) = claims s"
  "groupShares (snd (postMessage now usr gid content s)) = groupShares s"
  by (simp_all add: postMessage_def Let_def split: option.splits)

lemma createClaim_state:
  "snd (createClaim now usr itemId s) = s
   \<or> snd (createClaim now usr itemId s)
       = s\<lparr>claims := claims s @
            [\<lparr>claim_id = next_id (map claim_id (claims s)),
              claim_itemId = field_int itemId,
              claim_claimerId = user_id usr,
              claim_status = ''PENDING'',
              claim_createdAt = now,
              claim_decidedAt = None\<rparr>]\<rparr>"
  by (simp add: createClaim_def Let_def split: option.splits)

lemma decideClaim_state:
  "snd (decideClaim now usr cid decision s) = s
   \<or> (\<exists>c it. find (\<lambda>c. claim_id c = cid) (claims s) = Some c
         \<and> find (\<lambda>i. item_id i = claim_itemId c) (foodItems s) = Some it
         \<and> item_ownerId it = user_id usr
         \<and> (decision = ''ACCEPTED'' \<or> decision = ''REJECTED''))"
  by (auto simp: decideClaim_def split: option.splits)

lemma shareItemToGroup_state:
  "snd (shareItemToGroup now usr gid itemId s) = s
   \<or> (find (\<lambda>x. share_itemId x = field_int itemId \<and> share_groupId x = gid)
              (groupShares s) = None
       \<and> snd (shareItemToGroup now usr gid itemId s)
           = s\<lparr>groupShares := groupShares s @
                [\<lparr>share_id = next_id (map share_id (groupShares s)),
                  share_itemId = field_int itemId,
                  share_groupId = gid,
                  share_createdAt = now\<rparr>]\<rparr>)"
  by (auto simp: shareItemToGroup_def Let_def split: option.splits)

lemma handle_foodItems:
  "foodItems (handle e hdr req s) = foodItems s
   \<or> (\<exists>it. item_id it = next_id (map item_id (foodItems s))
         \<and> foodItems (handle e hdr req s) = foodItems s @ [it])
   \<or> (\<exists>u iid st. req = SetItemStatus iid st \<and> authMiddleware (env_verify e) hdr s = Inr u
         \<and> st \<in> set [''IN_FRIDGE'', ''AVAILABLE'', ''CLAIMED'']
         \<and> foodItems (handle e hdr req s)
             = map (\<lambda>i. if item_id i = iid \<and> item_ownerId i = user_id u
                         then i\<lparr>item_status := st\<rparr> else i) (foodItems s))
   \<or> (\<exists>u cid c it. req = DecideClaim cid ''ACCEPTED'' \<and> authMiddleware (env_verify e) hdr s = Inr u
         \<and> find (\<lambda>c. claim_id c = cid) (claims s) = Some c
         \<and> find (\<lambda>i. item_id i = claim_itemId c) (foodItems s) = Some it
         \<and> item_ownerId it = user_id u
         \<and> foodItems (handle e hdr req s)
             = map (\<lambda>x. if item_id x = claim_itemId c then x\<lparr>item_status := ''CLAIMED''\<rparr> else x)
                 (foodItems s))"
proof (cases req)
  case (Register n em p)
  then show ?thesis by (simp add: register_frame)
next
  case (CreateDonation i q l)
  then show ?thesis by (simp add: createDonation_frame)
next
  case ListCategories
  then show ?thesis by (simp add: listCategories_frame)
next
  case (CreateItem title cat ex)
  then show ?thesis
    using createItem_items
    by (cases "authMiddleware (env_verify e) hdr s") (auto simp: with_auth_snd)
next
  case (SetItemStatus iid st)
  show ?thesis
  proof (cases "authMiddleware (env_verify e) hdr s")
    case (Inl a)
    then show ?thesis by (simp add: SetItemStatus with_auth_snd)
  next
    case (Inr u)
    with setItemStatus_state[of u iid st s] show ?thesis
      by (auto simp: SetItemStatus with_auth_snd)
  qed
next
  case (CreateGroup n)
  then show ?thesis
    by (cases "authMiddleware (env_verify e) hdr s") (simp_all add: with_auth_snd createGroup_frame)
next
  case (AddMember g u t)
  then show ?thesis
    by (cases "authMiddleware (env_verify e) hdr s") (simp_all add: with_auth_snd addMember_frame)
next
  case (CreateClaim i)
  show ?thesis
  proof (cases "authMiddleware (env_verify e) hdr s")
    case (Inl a)
    then show ?thesis by (simp add: CreateClaim with_auth_snd)
  next
    case (Inr u)
    with createClaim_state[of "env_now e" u i s] show ?thesis
      by (auto simp: CreateClaim with_auth_snd)
  qed
next
  case (DecideClaim cid d)
  show ?thesis
  proof (cases "authMiddleware (env_verify e) hdr s")
    case (Inl a)
    then show ?thesis by (simp add: DecideClaim with_auth_snd)
  next
    case (Inr u)
    from decideClaim_state[of "env_now e" u cid d s] show ?thesis
    proof
      assume "snd (decideClaim (env_now e) u cid d s) = s"
      then show ?thesis by (simp add: DecideClaim with_auth_snd Inr)
    next
      assume "\<exists>c it. find (\<lambda>c. claim_id c = cid) (claims s) = Some c
         \<and> find (\<lambda>i. item_id i = claim_itemId c) (foodItems s) = Some it
         \<and> item_ownerId it = user_id u
         \<and> (d = ''ACCEPTED'' \<or> d = ''REJECTED'')"
      then obtain c it where c: "find (\<lambda>c. claim_id c = cid) (claims s) = Some c"
        and i: "find (\<lambda>i. item_id i = claim_itemId c) (foodItems s) = Some it"
        and o: "item_ownerId it = user_id u"
        and d: "d = ''ACCEPTED'' \<or> d = ''REJECTED''" by blast
      show ?thesis
        using d c i o
        by (auto simp: DecideClaim with_auth_snd Inr decideClaim_owner[OF c i o d])
    qed
  qed
next
  case (PostMessage g c)
  then show ?thesis
    by (cases "authMiddleware (env_verify e) hdr s") (simp_all add: with_auth_snd postMessage_frame)
next
  case (ShareItemToGroup g i)
  show ?thesis
  proof (cases "authMiddleware (env_verify e) hdr s")
    case (Inl a)
    then show ?thesis by (simp add: ShareItemToGroup with_auth_snd)
  next
    case (Inr u)
    with shareItemToGroup_state[of "env_now e" u g i s] show ?thesis
      by (auto simp: ShareItemToGroup with_auth_snd)
  qed
qed

lemma handle_claims:
  "claims (handle e hdr req s) = claims s
   \<or> (\<exists>c. claim_status c = ''PENDING'' \<and> claim_decidedAt c = None
         \<and> claim_id c = next_id (map claim_id (claims s))
         \<and> claims (handle e hdr req s) = claims s @ [c])
   \<or> (\<exists>u cid d c it. req = DecideClaim cid d \<and> d \<in> set [''ACCEPTED'', ''REJECTED'']
         \<and> authMiddleware (env_verify e) hdr s = Inr u
         \<and> find (\<lambda>c. claim_id c = cid) (claims s) = Some c
         \<and> find (\<lambda>i. item_id i = claim_itemId c) (foodItems s) = Some it
         \<and> item_ownerId it = user_id u
         \<and> claims (handle e hdr req s)
             = map (\<lambda>x. if claim_id x = cid
                         then x\<lparr>claim_status := d, claim_decidedAt := Some (env_now e)\<rparr>
                         else x) (claims s))"
proof (cases req)
  case (Register n em p)
  then show ?thesis by (simp add: register_frame)
next
  case (CreateDonation i q l)
  then show ?thesis by (simp add: createDonation_frame)
next
  case ListCategories
  then show ?thesis by (simp add: listCategories_frame)
next
  case (CreateItem title cat ex)
  then show ?thesis
    by (cases "authMiddleware (env_verify e) hdr s") (simp_all add: with_auth_snd createItem_frame)
next
  case (SetItemStatus iid st)
  show ?thesis
  proof (cases "authMiddleware (env_verify e) hdr s")
    case (Inl a)
    then show ?thesis by (simp add: SetItemStatus with_auth_snd)
  next
    case (Inr u)
    with setItemStatus_state[of u iid st s] show ?thesis
      by (auto simp: SetItemStatus with_auth_snd)
  qed
next
  case (CreateGroup n)
  then show ?thesis
    by (cases "authMiddleware (env_verify e) hdr s") (simp_all add: with_auth_snd createGroup_frame)
next
  case (AddMember g u t)
  then show ?thesis
    by (cases "authMiddleware (env_verify e) hdr s") (simp_all add: with_auth_snd addMember_frame)
next
  case (CreateClaim i)
  show ?thesis
  proof (cases "authMiddleware (env_verify e) hdr s")
    case (Inl a)
    then show ?thesis by (simp add: CreateClaim with_auth_snd)
  next
    case (Inr u)
    with createClaim_state[of "env_now e" u i s] show ?thesis
      by (auto simp: CreateClaim with_auth_snd)
  qed
next
  case (DecideClaim cid d)
  show ?thesis
  proof (cases "authMiddleware (env_verify e) hdr s")
    case (Inl a)
    then show ?thesis by (simp add: DecideClaim with_auth_snd)
  next
    case (Inr u)
    from decideClaim_state[of "env_now e" u cid d s] show ?thesis
    proof
      assume "snd (decideClaim (env_now e) u cid d s) = s"
      then show ?thesis by (simp add: DecideClaim with_auth_snd Inr)
    next
      assume "\<exists>c it. find (\<lambda>c. claim_id c = cid) (claims s) = Some c
         \<and> find (\<lambda>i. item_id i = claim_itemId c) (foodItems s) = Some it
         \<and> item_ownerId it = user_id u
         \<and> (d = ''ACCEPTED'' \<or> d = ''REJECTED'')"
      then obtain c it where c: "find (\<lambda>c. claim_id c = cid) (claims s) = Some c"
        and i: "find (\<lambda>i. item_id i = claim_itemId c) (foodItems s) = Some it"
        and o: "item_ownerId it = user_id u"
        and d: "d = ''ACCEPTED'' \<or> d = ''REJECTED''" by blast
      have "claims (handle e hdr req s)
             = map (\<lambda>x. if claim_id x = cid
                         then x\<lparr>claim_status := d, claim_decidedAt := Some (env_now e)\<rparr>
                         else x) (claims s)"
        by (simp add: DecideClaim with_auth_snd Inr decideClaim_owner[OF c i o d])
      moreover have "d \<in> set [''ACCEPTED'', ''REJECTED'']" using d by auto
      ultimately show ?thesis using c i o Inr DecideClaim by blast
    qed
  qed
next
  case (PostMessage g c)
  then show ?thesis
    by (cases "authMiddleware (env_verify e) hdr s") (simp_all add: with_auth_snd postMessage_frame)
next
  case (ShareItemToGroup g i)
  show ?thesis
  proof (cases "authMiddleware (env_verify e) hdr s")
    case (Inl a)
    then show ?thesis by (simp add: ShareItemToGroup with_auth_snd)
  next
    case (Inr u)
    with shareItemToGroup_state[of "env_now e" u g i s] show ?thesis
      by (auto simp: ShareItemToGroup with_auth_snd)
  qed
qed






lemma reachable_run: "reachable s \<Longrightarrow> reachable (run rs s)"
  by (induction rs s rule: run.induct) (auto intro: reachable_step)

lemma demo_store_reachable: "reachable demo_store"
  unfolding demo_store_def by (rule reachable_run[OF reachable_init])

lemma accepted_store_reachable: "reachable accepted_store"
  unfolding accepted_store_def by (rule reachable_step[OF demo_store_reachable])

lemma find_Some_key: "find (\<lambda>x. f x = k) xs = Some y \<Longrightarrow> f y = k"
  by (auto simp: find_Some_iff)

section \<open>Transitions of an item's status\<close>

text \<open>
  Claim C3 says that an item's status only goes from IN_FRIDGE to AVAILABLE and from
  AVAILABLE to CLAIMED. After the recorded run and the acceptance of the claim, the item
  has status CLAIMED; the owner's status update then takes it back to IN_FRIDGE, and a
  second one takes it from IN_FRIDGE straight to CLAIMED.
\<close>

theorem item_status_transitions_counterexample:
  "reachable accepted_store
   \<and> map item_status (foodItems accepted_store) = [''CLAIMED'']
   \<and> map item_status (foodItems
        (handle (demo_env 9) (Some ''Bearer t1'') (SetItemStatus 1 ''IN_FRIDGE'') accepted_store))
       = [''IN_FRIDGE'']
   \<and> map item_status (foodItems
        (handle (demo_env 10) (Some ''Bearer t1'') (SetItemStatus 1 ''CLAIMED'')
           (handle (demo_env 9) (Some ''Bearer t1'') (SetItemStatus 1 ''IN_FRIDGE'') accepted_store)))
       = [''CLAIMED'']"
proof -
  have "map item_status (foodItems accepted_store) = [''CLAIMED'']"
    by code_simp
  moreover have "map item_status (foodItems
        (handle (demo_env 9) (Some ''Bearer t1'') (SetItemStatus 1 ''IN_FRIDGE'') accepted_store))
       = [''IN_FRIDGE'']"
    by code_simp
  moreover have "map item_status (foodItems
        (handle (demo_env 10) (Some ''Bearer t1'') (SetItemStatus 1 ''CLAIMED'')
           (handle (demo_env 9) (Some ''Bearer t1'') (SetItemStatus 1 ''IN_FRIDGE'') accepted_store)))
       = [''CLAIMED'']"
    by code_simp
  ultimately show ?thesis using accepted_store_reachable by blast
qed

text \<open>
  Claim C3, amended. Across any request an item stays in the store with its owner, and
  its status changes only in two ways: by a status update of the item's owner, to the
  status asked for, which may be any of the three whatever the status was; or by the
  item's owner accepting a claim on the item, to CLAIMED, whatever the status was.
\<close>

theorem item_status_transitions:
  assumes "find (\<lambda>i. item_id i = k) (foodItems s) = Some it"
  shows "\<exists>it'. find (\<lambda>i. item_id i = k) (foodItems (handle e hdr req s)) = Some it'
           \<and> item_ownerId it' = item_ownerId it
           \<and> (item_status it' = item_status it
               \<or> (\<exists>u. authMiddleware (env_verify e) hdr s = Inr u
                     \<and> user_id u = item_ownerId it
                     \<and> ((\<exists>st. req = SetItemStatus k st
                               \<and> st \<in> set [''IN_FRIDGE'', ''AVAILABLE'', ''CLAIMED'']
                               \<and> item_status it' = st)
                         \<or> (\<exists>cid c. req = DecideClaim cid ''ACCEPTED''
                               \<and> find (\<lambda>c. claim_id c = cid) (claims s) = Some c
                               \<and> claim_itemId c = k
                               \<and> item_status it' = ''CLAIMED''))))"
  using handle_foodItems[of e hdr req s]
proof (elim disjE exE conjE)
  assume "foodItems (handle e hdr req s) = foodItems s"
  with assms show ?thesis by simp
next
  fix new
  assume "foodItems (handle e hdr req s) = foodItems s @ [new]"
  with assms show ?thesis by (simp add: find_append)
next
  fix u iid st
  assume req: "req = SetItemStatus iid st"
    and au: "authMiddleware (env_verify e) hdr s = Inr u"
    and st: "st \<in> set [''IN_FRIDGE'', ''AVAILABLE'', ''CLAIMED'']"
    and its: "foodItems (handle e hdr req s)
             = map (\<lambda>i. if item_id i = iid \<and> item_ownerId i = user_id u
                         then i\<lparr>item_status := st\<rparr> else i) (foodItems s)"
  have k: "item_id it = k" using assms by (rule find_Some_key)
  have f: "find (\<lambda>i. item_id i = k) (foodItems (handle e hdr req s))
           = Some (if item_id it = iid \<and> item_ownerId it = user_id u
                   then it\<lparr>item_status := st\<rparr> else it)"
    unfolding its using assms by (subst find_map_key) auto
  show ?thesis
  proof (cases "item_id it = iid \<and> item_ownerId it = user_id u")
    case True
    with f k req au st show ?thesis by auto
  next
    case False
    with f show ?thesis by auto
  qed
next
  fix u cid c it0
  assume req: "req = DecideClaim cid ''ACCEPTED''"
    and au: "authMiddleware (env_verify e) hdr s = Inr u"
    and c: "find (\<lambda>c. claim_id c = cid) (claims s) = Some c"
    and i0: "find (\<lambda>i. item_id i = claim_itemId c) (foodItems s) = Some it0"
    and o: "item_ownerId it0 = user_id u"
    and its: "foodItems (handle e hdr req s)
             = map (\<lambda>x. if item_id x = claim_itemId c then x\<lparr>item_status := ''CLAIMED''\<rparr> else x)
                 (foodItems s)"
  have k: "item_id it = k" using assms by (rule find_Some_key)
  have f: "find (\<lambda>i. item_id i = k) (foodItems (handle e hdr req s))
           = Some (if item_id it = claim_itemId c then it\<lparr>item_status := ''CLAIMED''\<rparr> else it)"
    unfolding its using assms by (subst find_map_key) auto
  show ?thesis
  proof (cases "item_id it = claim_itemId c")
    case True
    with k i0 assms have "it0 = it" by simp
    with True f k req au c o show ?thesis by auto
  next
    case False
    with f show ?thesis by auto
  qed
qed

theorem item_status_transitions_witness:
  "find (\<lambda>i. item_id i = 1) (foodItems demo_store) = Some demo_milk
   \<and> (\<exists>it'. find (\<lambda>i. item_id i = 1)
               (foodItems (handle (demo_env 8) (Some ''Bearer t1'') (SetItemStatus 1 ''IN_FRIDGE'')
                  demo_store)) = Some it'
           \<and> item_ownerId it' = item_ownerId demo_milk
           \<and> (item_status it' = item_status demo_milk
               \<or> (\<exists>u. authMiddleware (env_verify (demo_env 8)) (Some ''Bearer t1'') demo_store = Inr u
                     \<and> user_id u = item_ownerId demo_milk
                     \<and> ((\<exists>st. SetItemStatus 1 ''IN_FRIDGE'' = SetItemStatus 1 st
                               \<and> st \<in> set [''IN_FRIDGE'', ''AVAILABLE'', ''CLAIMED'']
                               \<and> item_status it' = st)
                         \<or> (\<exists>cid c. SetItemStatus 1 ''IN_FRIDGE'' = DecideClaim cid ''ACCEPTED''
                               \<and> find (\<lambda>c. claim_id c = cid) (claims demo_store) = Some c
                               \<and> claim_itemId c = 1
                               \<and> item_status it' = ''CLAIMED'')))))
   \<and> find (\<lambda>i. item_id i = 1)
        (foodItems (handle (demo_env 8) (Some ''Bearer t1'') (SetItemStatus 1 ''IN_FRIDGE'') demo_store))
       = Some (demo_milk\<lparr>item_status := ''IN_FRIDGE''\<rparr>)"
proof -
  have h: "find (\<lambda>i. item_id i = 1) (foodItems demo_store) = Some demo_milk"
    by (simp add: demo_store_eq demo_milk_def)
  have v: "find (\<lambda>i. item_id i = 1)
        (foodItems (handle (demo_env 8) (Some ''Bearer t1'') (SetItemStatus 1 ''IN_FRIDGE'') demo_store))
       = Some (demo_milk\<lparr>item_status := ''IN_FRIDGE''\<rparr>)"
    by code_simp
  note w = item_status_transitions[OF h, of "demo_env 8" "Some ''Bearer t1''"
      "SetItemStatus 1 ''IN_FRIDGE''"]
  show ?thesis by (rule conjI[OF h conjI[OF w v]])
qed

section \<open>Deciding a claim again\<close>

text \<open>
  Claim C6 says that once a claim is decided no operation changes its status or
  \<open>decidedAt\<close> again. After the recorded run the claim is accepted at time 8; the owner's
  next decision, REJECTED at time 9, is carried out: the claim has status REJECTED and
  \<open>decidedAt\<close> 9.
\<close>

theorem claim_decided_once_counterexample:
  "reachable accepted_store
   \<and> map claim_status (claims accepted_store) = [''ACCEPTED'']
   \<and> map claim_decidedAt (claims accepted_store) = [Some 8]
   \<and> map claim_status (claims
        (handle (demo_env 9) (Some ''Bearer t1'') (DecideClaim 1 ''REJECTED'') accepted_store))
       = [''REJECTED'']
   \<and> map claim_decidedAt (claims
        (handle (demo_env 9) (Some ''Bearer t1'') (DecideClaim 1 ''REJECTED'') accepted_store))
       = [Some 9]"
proof -
  have "map claim_status (claims accepted_store) = [''ACCEPTED'']"
    by code_simp
  moreover have "map claim_decidedAt (claims accepted_store) = [Some 8]"
    by code_simp
  moreover have "map claim_status (claims
        (handle (demo_env 9) (Some ''Bearer t1'') (DecideClaim 1 ''REJECTED'') accepted_store))
       = [''REJECTED'']"
    by code_simp
  moreover have "map claim_decidedAt (claims
        (handle (demo_env 9) (Some ''Bearer t1'') (DecideClaim 1 ''REJECTED'') accepted_store))
       = [Some 9]"
    by code_simp
  ultimately show ?thesis using accepted_store_reachable by blast
qed

text \<open>
  Claim C6, amended. Across any request a claim stays in the store, and its status and
  \<open>decidedAt\<close> change only by a decision (ACCEPTED or REJECTED) on that claim made by the
  owner of the claimed item; such a decision sets the status to the decision and
  \<open>decidedAt\<close> to the time of the request, whether the claim was pending or already
  decided.
\<close>

theorem claim_decided_by_owner:
  assumes "find (\<lambda>c. claim_id c = k) (claims s) = Some c"
  shows "\<exists>c'. find (\<lambda>c. claim_id c = k) (claims (handle e hdr req s)) = Some c'
           \<and> ((claim_status c' = claim_status c \<and> claim_decidedAt c' = claim_decidedAt c)
               \<or> (\<exists>u d it. req = DecideClaim k d
                     \<and> (d = ''ACCEPTED'' \<or> d = ''REJECTED'')
                     \<and> authMiddleware (env_verify e) hdr s = Inr u
                     \<and> find (\<lambda>i. item_id i = claim_itemId c) (foodItems s) = Some it
                     \<and> item_ownerId it = user_id u
                     \<and> claim_status c' = d
                     \<and> claim_decidedAt c' = Some (env_now e)))
           \<and> (\<forall>u d it. req = DecideClaim k d
                     \<and> (d = ''ACCEPTED'' \<or> d = ''REJECTED'')
                     \<and> authMiddleware (env_verify e) hdr s = Inr u
                     \<and> find (\<lambda>i. item_id i = claim_itemId c) (foodItems s) = Some it
                     \<and> item_ownerId it = user_id u
                  \<longrightarrow> claim_status c' = d \<and> claim_decidedAt c' = Some (env_now e))"
proof -
  have k: "claim_id c = k" using assms by (rule find_Some_key)
  have forced: "\<forall>u d it. req = DecideClaim k d
                     \<and> (d = ''ACCEPTED'' \<or> d = ''REJECTED'')
                     \<and> authMiddleware (env_verify e) hdr s = Inr u
                     \<and> find (\<lambda>i. item_id i = claim_itemId c) (foodItems s) = Some it
                     \<and> item_ownerId it = user_id u
                  \<longrightarrow> find (\<lambda>c. claim_id c = k) (claims (handle e hdr req s))
                        = Some (c\<lparr>claim_status := d, claim_decidedAt := Some (env_now e)\<rparr>)"
  proof (intro allI impI, elim conjE)
    fix u d it
    assume req: "req = DecideClaim k d" and d: "d = ''ACCEPTED'' \<or> d = ''REJECTED''"
      and au: "authMiddleware (env_verify e) hdr s = Inr u"
      and i: "find (\<lambda>i. item_id i = claim_itemId c) (foodItems s) = Some it"
      and o: "item_ownerId it = user_id u"
    have "claims (handle e hdr req s)
            = map (\<lambda>x. if claim_id x = k
                        then x\<lparr>claim_status := d, claim_decidedAt := Some (env_now e)\<rparr>
                        else x) (claims s)"
      by (simp add: req with_auth_snd au decideClaim_owner[OF assms i o d])
    then show "find (\<lambda>c. claim_id c = k) (claims (handle e hdr req s))
                 = Some (c\<lparr>claim_status := d, claim_decidedAt := Some (env_now e)\<rparr>)"
      using assms k by (simp add: find_map_key)
  qed
  have forced': "\<forall>u d it. req = DecideClaim k d
                     \<and> (d = ''ACCEPTED'' \<or> d = ''REJECTED'')
                     \<and> authMiddleware (env_verify e) hdr s = Inr u
                     \<and> find (\<lambda>i. item_id i = claim_itemId c) (foodItems s) = Some it
                     \<and> item_ownerId it = user_id u
                  \<longrightarrow> claim_status c' = d \<and> claim_decidedAt c' = Some (env_now e)"
    if "find (\<lambda>c. claim_id c = k) (claims (handle e hdr req s)) = Some c'" for c'
  proof (intro allI impI)
    fix u d it
    assume "req = DecideClaim k d
                     \<and> (d = ''ACCEPTED'' \<or> d = ''REJECTED'')
                     \<and> authMiddleware (env_verify e) hdr s = Inr u
                     \<and> find (\<lambda>i. item_id i = claim_itemId c) (foodItems s) = Some it
                     \<and> item_ownerId it = user_id u"
    with forced have "find (\<lambda>c. claim_id c = k) (claims (handle e hdr req s))
                        = Some (c\<lparr>claim_status := d, claim_decidedAt := Some (env_now e)\<rparr>)"
      by blast
    with that have "c' = c\<lparr>claim_status := d, claim_decidedAt := Some (env_now e)\<rparr>"
      by simp
    then show "claim_status c' = d \<and> claim_decidedAt c' = Some (env_now e)"
      by simp
  qed
  from handle_claims[of e hdr req s] show ?thesis
  proof (elim disjE exE conjE)
    assume same: "claims (handle e hdr req s) = claims s"
    have f: "find (\<lambda>c. claim_id c = k) (claims (handle e hdr req s)) = Some c"
      using assms same by simp
    show ?thesis
      by (rule exI[of _ c]) (intro conjI f disjI1 refl forced'[OF f])
  next
    fix new
    assume "claims (handle e hdr req s) = claims s @ [new]"
    then have f: "find (\<lambda>c. claim_id c = k) (claims (handle e hdr req s)) = Some c"
      using assms by (simp add: find_append)
    show ?thesis
      by (rule exI[of _ c]) (intro conjI f disjI1 refl forced'[OF f])
  next
    fix u cid d c0 it
    assume req: "req = DecideClaim cid d" and d': "d \<in> set [''ACCEPTED'', ''REJECTED'']"
      and au: "authMiddleware (env_verify e) hdr s = Inr u"
      and c0: "find (\<lambda>c. claim_id c = cid) (claims s) = Some c0"
      and i: "find (\<lambda>i. item_id i = claim_itemId c0) (foodItems s) = Some it"
      and o: "item_ownerId it = user_id u"
      and cs: "claims (handle e hdr req s)
             = map (\<lambda>x. if claim_id x = cid
                         then x\<lparr>claim_status := d, claim_decidedAt := Some (env_now e)\<rparr>
                         else x) (claims s)"
    have d: "d = ''ACCEPTED'' \<or> d = ''REJECTED''" using d' by auto
    show ?thesis
    proof (cases "cid = k")
      case True
      with c0 assms have cc: "c0 = c" by simp
      have f: "find (\<lambda>c. claim_id c = k) (claims (handle e hdr req s))
                 = Some (c\<lparr>claim_status := d, claim_decidedAt := Some (env_now e)\<rparr>)"
        using forced req d au i o True cc by blast
      have m: "\<exists>u d' it. req = DecideClaim k d'
                     \<and> (d' = ''ACCEPTED'' \<or> d' = ''REJECTED'')
                     \<and> authMiddleware (env_verify e) hdr s = Inr u
                     \<and> find (\<lambda>i. item_id i = claim_itemId c) (foodItems s) = Some it
                     \<and> item_ownerId it = user_id u
                     \<and> claim_status (c\<lparr>claim_status := d, claim_decidedAt := Some (env_now e)\<rparr>) = d'
                     \<and> claim_decidedAt (c\<lparr>claim_status := d, claim_decidedAt := Some (env_now e)\<rparr>)
                         = Some (env_now e)"
        using req d au i o True cc by auto
      show ?thesis
        by (rule exI[of _ "c\<lparr>claim_status := d, claim_decidedAt := Some (env_now e)\<rparr>"])
           (intro conjI f disjI2 m forced'[OF f])
    next
      case False
      have f: "find (\<lambda>c. claim_id c = k) (claims (handle e hdr req s)) = Some c"
        unfolding cs using assms k False by (simp add: find_map_key)
      show ?thesis
        by (rule exI[of _ c]) (intro conjI f disjI1 refl forced'[OF f])
    qed
  qed
qed

theorem claim_decided_by_owner_witness:
  "find (\<lambda>c. claim_id c = 1) (claims demo_store) = Some demo_claim
   \<and> (\<exists>c'. find (\<lambda>c. claim_id c = 1)
               (claims (handle (demo_env 8) (Some ''Bearer t1'') (DecideClaim 1 ''ACCEPTED'')
                  demo_store)) = Some c'
           \<and> ((claim_status c' = claim_status demo_claim
                \<and> claim_decidedAt c' = claim_decidedAt demo_claim)
               \<or> (\<exists>u d it. DecideClaim 1 ''ACCEPTED'' = DecideClaim 1 d
                     \<and> (d = ''ACCEPTED'' \<or> d = ''REJECTED'')
                     \<and> authMiddleware (env_verify (demo_env 8)) (Some ''Bearer t1'') demo_store = Inr u
                     \<and> find (\<lambda>i. item_id i = claim_itemId demo_claim) (foodItems demo_store) = Some it
                     \<and> item_ownerId it = user_id u
                     \<and> claim_status c' = d
                     \<and> claim_decidedAt c' = Some (env_now (demo_env 8))))
           \<and> (\<forall>u d it. DecideClaim 1 ''ACCEPTED'' = DecideClaim 1 d
                     \<and> (d = ''ACCEPTED'' \<or> d = ''REJECTED'')
                     \<and> authMiddleware (env_verify (demo_env 8)) (Some ''Bearer t1'') demo_store = Inr u
                     \<and> find (\<lambda>i. item_id i = claim_itemId demo_claim) (foodItems demo_store) = Some it
                     \<and> item_ownerId it = user_id u
                  \<longrightarrow> claim_status c' = d \<and> claim_decidedAt c' = Some (env_now (demo_env 8))))
   \<and> authMiddleware (env_verify (demo_env 8)) (Some ''Bearer t1'') demo_store = Inr demo_ana
   \<and> find (\<lambda>i. item_id i = claim_itemId demo_claim) (foodItems demo_store) = Some demo_milk
   \<and> item_ownerId demo_milk = user_id demo_ana"
proof -
  note w = claim_decided_by_owner[OF demo_find_claim, of "demo_env 8" "Some ''Bearer t1''"
      "DecideClaim 1 ''ACCEPTED''"]
  have a: "authMiddleware (env_verify (demo_env 8)) (Some ''Bearer t1'') demo_store = Inr demo_ana"
    by code_simp
  have o: "item_ownerId demo_milk = user_id demo_ana"
    by (simp add: demo_milk_def demo_ana_def)
  show ?thesis
    by (rule conjI[OF demo_find_claim conjI[OF w conjI[OF a conjI[OF demo_find_milk o]]]])
qed






section \<open>Creating a claim\<close>










section \<open>Sharing an item to a group\<close>




lemma fold_max_upt: "fold max (map int [1..<Suc n]) 0 = int n"
  by (induction n) auto

lemma chat_message_ids: "map message_id (map chat_message xs) = map int xs"
  by (induction xs) (simp_all add: chat_message_def)

lemma next_id_chat: "next_id (map message_id (map chat_message [1..<Suc n])) = int (Suc n)"
  unfolding next_id_def chat_message_ids fold_max_upt by simp

lemma chat_store_frame:
  "users (chat_store n) = [demo_ana, demo_bogdan]"
  "friendGroups (chat_store n) = [demo_group]"
  "groupMembers (chat_store n) = groupMembers demo_store"
  "groupMessages (chat_store n) = map chat_message [1..<Suc n]"
  by (simp_all add: chat_store_def demo_store_eq)

lemma chat_store_0: "chat_store 0 = demo_store"
  by (simp add: chat_store_def demo_store_eq)

lemma chat_auth: "authMiddleware demo_verify (Some ''Bearer t1'') (chat_store n) = Inr demo_ana"
  by (simp add: authMiddleware_def bearer_token_def demo_verify_def chat_store_frame demo_ana_def
      demo_bogdan_def)

lemma chat_owner: "is_owner_or_member (chat_store n) demo_group demo_ana"
  by (simp add: is_owner_or_member_def demo_group_def demo_ana_def)

lemma trim_salut: "trim ''salut'' = ''salut''"
  by code_simp

lemma chat_store_append:
  "chat_store (Suc n)
     = (chat_store n)\<lparr>groupMessages := groupMessages (chat_store n) @ [chat_message (Suc n)]\<rparr>"
  by (simp add: chat_store_def)

lemma chat_store_Suc:
  "handle (demo_env (100 + int (Suc n))) (Some ''Bearer t1'') (PostMessage 1 (Some ''salut''))
     (chat_store n) = chat_store (Suc n)"
proof -
  have u: "find (\<lambda>u. user_id u = user_id demo_ana) (users (chat_store n)) = Some demo_ana"
    by (simp add: chat_store_frame demo_ana_def)
  have g: "find (\<lambda>g. group_id g = 1) (friendGroups (chat_store n)) = Some demo_group"
    by (simp add: chat_store_frame demo_group_def)
  have nid: "next_id (map message_id (groupMessages (chat_store n))) = int (Suc n)"
    unfolding chat_store_frame(4) by (rule next_id_chat)
  have m: "\<lparr>message_id = next_id (map message_id (groupMessages (chat_store n))),
            message_groupId = 1,
            message_authorId = user_id demo_ana,
            message_content = ''salut'',
            message_createdAt = 100 + int (Suc n)\<rparr> = chat_message (Suc n)"
    unfolding nid by (simp add: chat_message_def demo_ana_def)
  have "postMessage (100 + int (Suc n)) demo_ana 1 (Some ''salut'') (chat_store n)
          = (Inr (\<lparr>message_id = next_id (map message_id (groupMessages (chat_store n))),
                   message_groupId = 1,
                   message_authorId = user_id demo_ana,
                   message_content = ''salut'',
                   message_createdAt = 100 + int (Suc n)\<rparr>, Some demo_ana),
             (chat_store n)\<lparr>groupMessages := groupMessages (chat_store n) @
               [\<lparr>message_id = next_id (map message_id (groupMessages (chat_store n))),
                 message_groupId = 1,
                 message_authorId = user_id demo_ana,
                 message_content = ''salut'',
                 message_createdAt = 100 + int (Suc n)\<rparr>]\<rparr>)"
    by (simp add: postMessage_def trim_salut g chat_owner u Let_def)
  then have p: "postMessage (100 + int (Suc n)) demo_ana 1 (Some ''salut'') (chat_store n)
             = (Inr (chat_message (Suc n), Some demo_ana), chat_store (Suc n))"
    unfolding m chat_store_append .
  have e: "env_verify (demo_env (100 + int (Suc n))) = demo_verify"
    "env_now (demo_env (100 + int (Suc n))) = 100 + int (Suc n)"
    by (simp_all add: demo_env_def)
  have "handle (demo_env (100 + int (Suc n))) (Some ''Bearer t1'') (PostMessage 1 (Some ''salut''))
          (chat_store n)
        = snd (with_auth demo_verify (Some ''Bearer t1'') (chat_store n)
                 (\<lambda>u. postMessage (100 + int (Suc n)) u 1 (Some ''salut'') (chat_store n)))"
    by (simp only: handle.simps e)
  also have "\<dots> = snd (postMessage (100 + int (Suc n)) demo_ana 1 (Some ''salut'') (chat_store n))"
    by (simp only: with_auth_def chat_auth sum.case)
  also have "\<dots> = chat_store (Suc n)"
    by (simp only: p snd_conv)
  finally show ?thesis .
qed

lemma chat_store_reachable: "reachable (chat_store n)"
proof (induction n)
  case 0
  show ?case by (simp add: chat_store_0 demo_store_reachable)
next
  case (Suc n)
  from reachable_step[OF Suc, of "demo_env (100 + int (Suc n))" "Some ''Bearer t1''"
      "PostMessage 1 (Some ''salut'')"]
  show ?case by (simp only: chat_store_Suc)
qed

lemma chat_sorted: "sorted (map message_createdAt (map chat_message [1..<Suc n]))"
proof -
  have "sorted_wrt (\<lambda>x y. message_createdAt (chat_message x) \<le> message_createdAt (chat_message y))
          [1..<Suc n]"
    by (rule sorted_wrt_mono_rel[OF _ sorted_upt]) (simp add: chat_message_def)
  then show ?thesis
    unfolding map_map sorted_map by (simp only: o_def)
qed


lemma chat_filter: "filter (\<lambda>m. message_groupId m = 1) (map chat_message xs) = map chat_message xs"
  by (induction xs) (simp_all add: chat_message_def)

lemma chat_authors:
  "map (\<lambda>m. (m, find (\<lambda>u. user_id u = message_authorId m) (users (chat_store n))))
     (map chat_message xs) = map chat_row xs"
  by (induction xs) (simp_all add: chat_row_def chat_message_def chat_store_frame demo_ana_def)

lemma chat_listMessages:
  "listMessages demo_ana 1 (chat_store n) = Inr (map chat_row (take 200 [1..<Suc n]))"
proof -
  have g: "find (\<lambda>g. group_id g = 1) (friendGroups (chat_store n)) = Some demo_group"
    by (simp add: chat_store_frame demo_group_def)
  have s: "sort_key message_createdAt (map chat_message [1..<Suc n]) = map chat_message [1..<Suc n]"
    by (rule sort_key_id_if_sorted[OF chat_sorted])
  show ?thesis
    unfolding listMessages_def
    by (simp only: g option.case chat_owner not_True_eq_False if_False chat_store_frame(4)
        chat_filter s Let_def take_map chat_authors)
qed

section \<open>Listing the messages of a group\<close>

text \<open>
  Claim C7 says that for a group with more than 200 messages \<open>listMessages\<close> returns the
  200 most recent ones. After the recorded run the owner posts 201 messages to the
  group, the \<open>k\<close>-th at time \<open>100 + k\<close>. The answer to the owner is the messages 1 to 200:
  the oldest message is in it, and message 201, the most recent of the group, is not.
\<close>

theorem listMessages_most_recent_counterexample:
  "reachable (chat_store 201)
   \<and> length (filter (\<lambda>m. message_groupId m = 1) (groupMessages (chat_store 201))) = 201
   \<and> listMessages demo_ana 1 (chat_store 201) = Inr (map chat_row [1..<201])
   \<and> chat_message 201 \<in> set (groupMessages (chat_store 201))
   \<and> message_createdAt (chat_message 200) < message_createdAt (chat_message 201)
   \<and> chat_row 201 \<notin> set (map chat_row [1..<201])
   \<and> chat_row 1 \<in> set (map chat_row [1..<201])"
proof -
  have 1: "length (filter (\<lambda>m. message_groupId m = 1) (groupMessages (chat_store 201))) = 201"
    unfolding chat_store_frame(4) chat_filter by simp
  have "take 200 [1..<Suc 201] = [1..<201]"
    by (simp only: take_upt) simp
  then have 2: "listMessages demo_ana 1 (chat_store 201) = Inr (map chat_row [1..<201])"
    by (simp only: chat_listMessages)
  have 3: "chat_message 201 \<in> set (groupMessages (chat_store 201))"
    unfolding chat_store_frame(4) by (simp del: upt_Suc)
  have 4: "message_createdAt (chat_message 200) < message_createdAt (chat_message 201)"
    by (simp add: chat_message_def)
  have inj: "chat_row j = chat_row k \<longleftrightarrow> j = k" for j k
    by (simp add: chat_row_def chat_message_def)
  have 5: "chat_row 201 \<notin> set (map chat_row [1..<201])"
    by (auto simp: inj simp del: upt_Suc)
  have 6: "chat_row 1 \<in> set (map chat_row [1..<201])"
    by (simp del: upt_Suc)
  from chat_store_reachable 1 2 3 4 5 6 show ?thesis by blast
qed

lemma count_list_insort_key: "count_list (insort_key f x xs) y = count_list (x # xs) y"
  by (induction xs) auto

lemma count_list_sort_key: "count_list (sort_key f xs) y = count_list xs y"
  by (induction xs) (simp_all add: count_list_insort_key)

text \<open>
  Claim C7, amended. For a caller who is the group's owner or a member, \<open>listMessages\<close>
  returns the first 200 messages of the group in ascending order of creation time, each
  with its author joined: all of them when the group has at most 200, and the 200 oldest
  when it has more. Precisely, the answer followed by some rest holds each message of
  the group as often as the group does, is in ascending order of creation time, keeps
  messages created at the same instant in the order they were stored, and the answer has
  200 entries or as many as the group has, whichever is less.
\<close>

theorem listMessages_oldest:
  assumes "find (\<lambda>g. group_id g = gid) (friendGroups s) = Some grp"
    and "is_owner_or_member s grp usr"
  shows "\<exists>ms rest.
           listMessages usr gid s
             = Inr (map (\<lambda>m. (m, find (\<lambda>u. user_id u = message_authorId m) (users s))) ms)
           \<and> length ms = min 200 (length (filter (\<lambda>m. message_groupId m = gid) (groupMessages s)))
           \<and> (\<forall>m. count_list (ms @ rest) m
                    = count_list (filter (\<lambda>m. message_groupId m = gid) (groupMessages s)) m)
           \<and> sorted (map message_createdAt (ms @ rest))
           \<and> (\<forall>t. filter (\<lambda>m. message_createdAt m = t) (ms @ rest)
                    = filter (\<lambda>m. message_createdAt m = t)
                        (filter (\<lambda>m. message_groupId m = gid) (groupMessages s)))"
proof -
  let ?grp = "filter (\<lambda>m. message_groupId m = gid) (groupMessages s)"
  let ?all = "sort_key message_createdAt ?grp"
  have r: "listMessages usr gid s
             = Inr (map (\<lambda>m. (m, find (\<lambda>u. user_id u = message_authorId m) (users s)))
                      (take 200 ?all))"
    by (simp add: listMessages_def assms)
  have l: "length (take 200 ?all) = min 200 (length ?grp)"
    by (simp add: min.commute)
  have c: "\<forall>m. count_list (take 200 ?all @ drop 200 ?all) m = count_list ?grp m"
    by (simp only: append_take_drop_id count_list_sort_key) simp
  have so: "sorted (map message_createdAt (take 200 ?all @ drop 200 ?all))"
    by (simp only: append_take_drop_id) simp
  have st: "\<forall>t. filter (\<lambda>m. message_createdAt m = t) (take 200 ?all @ drop 200 ?all)
                 = filter (\<lambda>m. message_createdAt m = t) ?grp"
    by (simp only: append_take_drop_id sort_key_stable) simp
  show ?thesis
    by (rule exI[of _ "take 200 ?all"], rule exI[of _ "drop 200 ?all"])
       (intro conjI r l c so st)
qed

theorem listMessages_oldest_witness:
  "find (\<lambda>g. group_id g = 1) (friendGroups (chat_store 201)) = Some demo_group
   \<and> is_owner_or_member (chat_store 201) demo_group demo_ana
   \<and> (\<exists>ms rest.
           listMessages demo_ana 1 (chat_store 201)
             = Inr (map (\<lambda>m. (m, find (\<lambda>u. user_id u = message_authorId m)
                                   (users (chat_store 201)))) ms)
           \<and> length ms
               = min 200 (length (filter (\<lambda>m. message_groupId m = 1) (groupMessages (chat_store 201))))
           \<and> (\<forall>m. count_list (ms @ rest) m
                    = count_list (filter (\<lambda>m. message_groupId m = 1)
                                    (groupMessages (chat_store 201))) m)
           \<and> sorted (map message_createdAt (ms @ rest))
           \<and> (\<forall>t. filter (\<lambda>m. message_createdAt m = t) (ms @ rest)
                    = filter (\<lambda>m. message_createdAt m = t)
                        (filter (\<lambda>m. message_groupId m = 1) (groupMessages (chat_store 201)))))
   \<and> length (filter (\<lambda>m. message_groupId m = 1) (groupMessages (chat_store 201))) = 201"
proof -
  have g: "find (\<lambda>g. group_id g = 1) (friendGroups (chat_store 201)) = Some demo_group"
    by (simp add: chat_store_frame demo_group_def)
  have n: "length (filter (\<lambda>m. message_groupId m = 1) (groupMessages (chat_store 201))) = 201"
    unfolding chat_store_frame(4) chat_filter by simp
  note w = listMessages_oldest[OF g chat_owner]
  show ?thesis
    by (rule conjI[OF g conjI[OF chat_owner conjI[OF w n]]])
qed

end
